theory Spec2Isabelle
  imports Complex_Main
begin

section \<open>JavaScript strings\<close>

text \<open>
  A JavaScript string is a sequence of UTF-16 code units. The model covers the strings
  whose code units lie in the range 0..255 (ASCII and Latin-1): a \<^typ>\<open>string\<close> is the
  list of these code units, so \<^term>\<open>length\<close> is JavaScript's \<open>.length\<close>. Literals of
  the source that contain a glyph outside this range (an emoji in front of a summary, a
  dash or a typographic apostrophe inside a message) are written with an ASCII stand-in
  for that glyph; icons are kept as lists of code points.
\<close>

definition codeUnit :: "char \<Rightarrow> nat" where
  "codeUnit c = of_char c"

definition isDigit :: "char \<Rightarrow> bool" where
  \<comment> \<open>\<open>0-9\<close>\<close>
  "isDigit c = (48 \<le> codeUnit c \<and> codeUnit c \<le> 57)"

definition isUpper :: "char \<Rightarrow> bool" where
  \<comment> \<open>\<open>A-Z\<close>\<close>
  "isUpper c = (65 \<le> codeUnit c \<and> codeUnit c \<le> 90)"

definition isLower :: "char \<Rightarrow> bool" where
  \<comment> \<open>\<open>a-z\<close>\<close>
  "isLower c = (97 \<le> codeUnit c \<and> codeUnit c \<le> 122)"

definition isAlpha :: "char \<Rightarrow> bool" where
  "isAlpha c = (isUpper c \<or> isLower c)"

definition isWordChar :: "char \<Rightarrow> bool" where
  \<comment> \<open>the class \<open>\w\<close>\<close>
  "isWordChar c = (isAlpha c \<or> isDigit c \<or> c = CHR ''_'')"

definition isSpace :: "char \<Rightarrow> bool" where
  \<comment> \<open>the class \<open>\s\<close> (white space and line terminators) below code unit 256\<close>
  "isSpace c = (codeUnit c \<in> {9, 10, 11, 12, 13, 32, 160})"

definition lowerChar :: "char \<Rightarrow> char" where
  \<comment> \<open>\<open>toLowerCase\<close> on one code unit: A-Z, and the Latin-1 capitals 0xC0-0xDE but 0xD7\<close>
  "lowerChar c =
     (let n = codeUnit c
      in if (65 \<le> n \<and> n \<le> 90) \<or> (192 \<le> n \<and> n \<le> 222 \<and> n \<noteq> 215)
         then char_of (n + 32) else c)"

definition toLowerCase :: "string \<Rightarrow> string" where
  "toLowerCase s = map lowerChar s"

definition trim :: "string \<Rightarrow> string" where
  "trim s = rev (dropWhile isSpace (rev (dropWhile isSpace s)))"

definition startsWith :: "string \<Rightarrow> string \<Rightarrow> bool" where
  "startsWith s t = (take (length t) s = t)"

definition endsWith :: "string \<Rightarrow> string \<Rightarrow> bool" where
  "endsWith s t = (length t \<le> length s \<and> drop (length s - length t) s = t)"

fun str_includes :: "string \<Rightarrow> string \<Rightarrow> bool" where
  "str_includes [] t = (t = [])"
| "str_includes (c # s) t = (startsWith (c # s) t \<or> str_includes s t)"

fun str_split :: "char \<Rightarrow> string \<Rightarrow> string list" where
  \<comment> \<open>\<open>s.split(sep)\<close> for a separator of one character\<close>
  "str_split sep [] = [[]]"
| "str_split sep (c # s) =
     (if c = sep then [] # str_split sep s
      else (case str_split sep s of [] \<Rightarrow> [[c]] | w # ws \<Rightarrow> (c # w) # ws))"

fun str_join :: "string \<Rightarrow> string list \<Rightarrow> string" where
  "str_join sep [] = []"
| "str_join sep [w] = w"
| "str_join sep (w # ws) = w @ sep @ str_join sep ws"

definition at_index :: "'a list \<Rightarrow> nat \<Rightarrow> 'a option" where
  \<comment> \<open>\<open>xs[i]\<close>: \<open>undefined\<close> out of range\<close>
  "at_index xs i = (if i < length xs then Some (xs ! i) else None)"

definition dquote :: string where
  \<comment> \<open>the double quote inside a message\<close>
  "dquote = [CHR 0x22]"

function decimal :: "nat \<Rightarrow> string" where
  \<comment> \<open>a non-negative integer in a template literal\<close>
  "decimal n = (if n < 10 then [char_of (48 + n)] else decimal (n div 10) @ [char_of (48 + n mod 10)])"
  by pat_completeness auto
termination
  by (relation "measure id") auto

declare decimal.simps [simp del]

section \<open>Regular expressions\<close>

text \<open>
  The patterns of the source use character classes, sequences, alternatives, greedy
  bounded and unbounded repetition and the word boundary. A pattern is run on a position:
  the code unit before it (for \<open>\b\<close>) and the rest of the input. The result is the list of
  positions where a match can end, in the order in which the backtracking matcher of
  JavaScript tries them; the match it reports is the first one. A repetition goes on only
  after an iteration that has consumed input, as in JavaScript, where an iteration that
  matches the empty string ends the repetition.
\<close>

datatype rx =
    Eps
  | Cls "char \<Rightarrow> bool"
  | Seq rx rx
  | Alt rx rx
  | Rep nat "nat option" rx
  | WordB

type_synonym rxpos = "char option \<times> string"

fun rx_rep :: "(rxpos \<Rightarrow> rxpos list) \<Rightarrow> nat \<Rightarrow> nat option \<Rightarrow> rxpos \<Rightarrow> rxpos list" where
  "rx_rep f lo hi p =
     (if hi = Some 0 then []
      else concat (map (\<lambda>q. if length (snd q) < length (snd p)
                               then rx_rep f (lo - 1) (map_option (\<lambda>h. h - 1) hi) q
                               else [])
                       (f p)))
     @ (if lo = 0 then [p] else [])"

declare rx_rep.simps [simp del]

definition atBoundary :: "rxpos \<Rightarrow> bool" where
  "atBoundary p =
     ((case fst p of None \<Rightarrow> False | Some c \<Rightarrow> isWordChar c)
      \<noteq> (case snd p of [] \<Rightarrow> False | c # _ \<Rightarrow> isWordChar c))"

fun rx_run :: "rx \<Rightarrow> rxpos \<Rightarrow> rxpos list" where
  "rx_run Eps p = [p]"
| "rx_run (Cls P) p = (case snd p of [] \<Rightarrow> [] | c # s \<Rightarrow> if P c then [(Some c, s)] else [])"
| "rx_run (Seq a b) p = concat (map (rx_run b) (rx_run a p))"
| "rx_run (Alt a b) p = rx_run a p @ rx_run b p"
| "rx_run (Rep lo hi a) p = rx_rep (rx_run a) lo hi p"
| "rx_run WordB p = (if atBoundary p then [p] else [])"

text \<open>
  \<open>re.test(s)\<close>: some position of \<open>s\<close> starts a match. \<open>s.match(re)\<close> with the flag
  \<open>g\<close>: the matches from left to right, each search starting where the last match
  ended. \<open>s.replace(re, f)\<close> with the flag \<open>g\<close>: every such match replaced. Every pattern
  of the source consumes at least one code unit, so a match of length zero is passed over.
\<close>

fun rx_test :: "rx \<Rightarrow> char option \<Rightarrow> string \<Rightarrow> bool" where
  "rx_test r prev [] = (rx_run r (prev, []) \<noteq> [])"
| "rx_test r prev (c # s) = (rx_run r (prev, c # s) \<noteq> [] \<or> rx_test r (Some c) s)"

fun rx_matches :: "rx \<Rightarrow> char option \<Rightarrow> string \<Rightarrow> string list" where
  "rx_matches r prev [] = []"
| "rx_matches r prev (c # s) =
     (case rx_run r (prev, c # s) of
        [] \<Rightarrow> rx_matches r (Some c) s
      | (q, rest) # _ \<Rightarrow>
          if length rest < length (c # s)
          then take (length (c # s) - length rest) (c # s) # rx_matches r q rest
          else rx_matches r (Some c) s)"

fun rx_replace :: "rx \<Rightarrow> (string \<Rightarrow> string) \<Rightarrow> char option \<Rightarrow> string \<Rightarrow> string" where
  "rx_replace r f prev [] = []"
| "rx_replace r f prev (c # s) =
     (case rx_run r (prev, c # s) of
        [] \<Rightarrow> c # rx_replace r f (Some c) s
      | (q, rest) # _ \<Rightarrow>
          if length rest < length (c # s)
          then f (take (length (c # s) - length rest) (c # s)) @ rx_replace r f q rest
          else c # rx_replace r f (Some c) s)"

definition re_test :: "rx \<Rightarrow> string \<Rightarrow> bool" where
  "re_test r s = rx_test r None s"

definition re_match_g :: "rx \<Rightarrow> string \<Rightarrow> string list" where
  "re_match_g r s = rx_matches r None s"

definition re_replace_g :: "rx \<Rightarrow> (string \<Rightarrow> string) \<Rightarrow> string \<Rightarrow> string" where
  "re_replace_g r f s = rx_replace r f None s"

definition rx_chr :: "char \<Rightarrow> rx" where
  "rx_chr c = Cls (\<lambda>x. x = c)"

definition rx_oneOf :: "string \<Rightarrow> rx" where
  "rx_oneOf cs = Cls (\<lambda>x. x \<in> set cs)"

fun seqs :: "rx list \<Rightarrow> rx" where
  "seqs [] = Eps"
| "seqs [r] = r"
| "seqs (r # rs) = Seq r (seqs rs)"

fun alts :: "rx list \<Rightarrow> rx" where
  "alts [] = Cls (\<lambda>_. False)"
| "alts [r] = r"
| "alts (r # rs) = Alt r (alts rs)"

definition rx_lit :: "string \<Rightarrow> rx" where
  "rx_lit s = seqs (map rx_chr s)"

definition rx_lit_i :: "string \<Rightarrow> rx" where
  \<comment> \<open>a literal under the flag \<open>i\<close>; the literals of the source are ASCII letters\<close>
  "rx_lit_i s = seqs (map (\<lambda>c. Cls (\<lambda>x. lowerChar x = lowerChar c \<and> codeUnit x < 128)) s)"

definition rx_opt :: "rx \<Rightarrow> rx" where
  "rx_opt r = Rep 0 (Some 1) r"

definition rx_plus :: "rx \<Rightarrow> rx" where
  "rx_plus r = Rep 1 None r"

definition rx_times :: "nat \<Rightarrow> rx \<Rightarrow> rx" where
  "rx_times n r = Rep n (Some n) r"

section \<open>The pattern tables (utils/constants.js)\<close>

definition SUSPICIOUS_TLDS :: "string list" where
  "SUSPICIOUS_TLDS =
     [''.xyz'', ''.top'', ''.club'', ''.online'', ''.site'',
      ''.icu'', ''.buzz'', ''.tk'', ''.ml'', ''.ga'',
      ''.cf'', ''.gq'', ''.win'', ''.loan'', ''.click'',
      ''.link'', ''.work'', ''.date'', ''.racing'',
      ''.download'', ''.stream'', ''.bid'']"

definition TRUSTED_DOMAINS :: "string list" where
  "TRUSTED_DOMAINS =
     [''google.com'', ''gmail.com'', ''microsoft.com'',
      ''outlook.com'', ''apple.com'', ''amazon.com'',
      ''paypal.com'', ''chase.com'', ''bankofamerica.com'',
      ''wellsfargo.com'', ''usps.com'', ''fedex.com'',
      ''ups.com'', ''irs.gov'', ''sbi.co.in'',
      ''hdfcbank.com'', ''icicibank.com'', ''rbi.org.in'',
      ''gov.in'', ''india.gov.in'']"

definition IP_ADDRESS :: rx where
  \<comment> \<open>\<open>/https?:\/\/\d{1,3}\.\d{1,3}\.\d{1,3}\.\d{1,3}/\<close>\<close>
  "IP_ADDRESS =
     seqs [rx_lit ''http'', rx_opt (rx_chr CHR ''s''), rx_lit ''://'',
           Rep 1 (Some 3) (Cls isDigit), rx_chr CHR ''.'',
           Rep 1 (Some 3) (Cls isDigit), rx_chr CHR ''.'',
           Rep 1 (Some 3) (Cls isDigit), rx_chr CHR ''.'',
           Rep 1 (Some 3) (Cls isDigit)]"

definition SUSPICIOUS_PATHS :: rx where
  \<comment> \<open>\<open>/\/(secure|login|verify|update|confirm|account|banking|signin)/i\<close>\<close>
  "SUSPICIOUS_PATHS =
     Seq (rx_chr CHR ''/'')
         (alts (map rx_lit_i [''secure'', ''login'', ''verify'', ''update'', ''confirm'',
                              ''account'', ''banking'', ''signin'']))"

definition AT_SYMBOL :: rx where
  \<comment> \<open>\<open>/@/\<close>\<close>
  "AT_SYMBOL = rx_chr CHR ''@''"

definition TYPOSQUAT_MAP :: "(string \<times> string list) list" where
  \<comment> \<open>the entries in the order of the object literal\<close>
  "TYPOSQUAT_MAP =
     [(''google'', [''g00gle'', ''gogle'', ''googl'', ''gooogle'', ''googIe'']),
      (''amazon'', [''amaz0n'', ''amazn'', ''amazom'', ''arnazon'', ''amaz'' @ [CHR 0xF3] @ ''n'']),
      (''paypal'', [''paypa1'', ''paypai'', ''paypaI'', ''peypal'', ''paypa'']),
      (''apple'', [''app1e'', ''appie'', ''appIe'', ''aple'', ''appl'']),
      (''microsoft'', [''micr0soft'', ''mircosoft'', ''microsft'', ''microsoft'']),
      (''facebook'', [''faceb00k'', ''facebok'', ''facbook'']),
      (''netflix'', [''netf1ix'', ''netfIix'', ''netflix'']),
      (''sbi'', [''sb1'', ''sb'' @ [CHR 0xEC]]),
      (''hdfc'', [''hdf c'', ''hdtc''])]"

section \<open>The shared helpers (utils/helpers.js)\<close>

text \<open>
  \<open>getDomain\<close> calls the platform's URL parser, which is no code of the repository:
  \<open>hostname url\<close> is the \<open>hostname\<close> of \<open>new URL(url)\<close>, and \<open>None\<close> when the constructor
  throws.
\<close>

definition getDomain :: "(string \<Rightarrow> string option) \<Rightarrow> string \<Rightarrow> string option" where
  "getDomain hostname url = map_option toLowerCase (hostname url)"

text \<open>
  \<open>levenshteinDistance\<close> fills the table \<open>dp\<close> of \<open>m + 1\<close> rows and \<open>n + 1\<close> columns in
  place: the first column, the first row, then row by row.
\<close>

definition dp_set :: "nat list list \<Rightarrow> nat \<Rightarrow> nat \<Rightarrow> nat \<Rightarrow> nat list list" where
  \<comment> \<open>\<open>dp[i][j] = v\<close>\<close>
  "dp_set dp i j v = dp[i := (dp ! i)[j := v]]"

definition lev_cell :: "string \<Rightarrow> string \<Rightarrow> nat \<Rightarrow> nat \<Rightarrow> nat list list \<Rightarrow> nat list list" where
  \<comment> \<open>the body of the inner loop\<close>
  "lev_cell str1 str2 i j dp =
     (let cost = (if str1 ! (i - 1) = str2 ! (j - 1) then 0 else 1)
      in dp_set dp i j
           (min (min (dp ! (i - 1) ! j + 1) (dp ! i ! (j - 1) + 1))
                (dp ! (i - 1) ! (j - 1) + cost)))"

definition lev_table :: "string \<Rightarrow> string \<Rightarrow> nat list list" where
  "lev_table str1 str2 =
     (let m = length str1;
          n = length str2;
          dp0 = replicate (m + 1) (replicate (n + 1) 0);
          dp1 = fold (\<lambda>i dp. dp_set dp i 0 i) [0..<m + 1] dp0;
          dp2 = fold (\<lambda>j dp. dp_set dp 0 j j) [0..<n + 1] dp1
      in fold (\<lambda>i dp. fold (lev_cell str1 str2 i) [1..<n + 1] dp) [1..<m + 1] dp2)"

definition levenshteinDistance :: "string \<Rightarrow> string \<Rightarrow> nat" where
  "levenshteinDistance str1 str2 = lev_table str1 str2 ! length str1 ! length str2"

section \<open>The URL and sender analysis (scripts/scanner.js)\<close>

text \<open>
  A flag of the scanner is a message; a flag of the text analysis is an object with a
  code and a message. The private methods keep their names without the leading
  underscore: \<open>_isTrustedDomain\<close> is \<open>isTrustedDomain\<close>, and so on.
\<close>

datatype flag = Msg string | Coded string string

record component_result =
  score :: int
  flags :: "flag list"

definition addFlag ::
  "bool \<Rightarrow> int \<Rightarrow> flag \<Rightarrow> 'a component_result_scheme \<Rightarrow> 'a component_result_scheme" where
  \<comment> \<open>\<open>if (c) { result.score += pts; result.flags.push(f); }\<close>\<close>
  "addFlag c pts f result =
     (if c then result\<lparr>score := score result + pts, flags := flags result @ [f]\<rparr> else result)"

definition isTrustedDomain :: "string \<Rightarrow> bool" where
  "isTrustedDomain domain =
     list_ex (\<lambda>trusted. domain = trusted \<or> endsWith domain (''.'' @ trusted)) TRUSTED_DOMAINS"

definition isURLShortener :: "string \<Rightarrow> bool" where
  "isURLShortener domain =
     (domain \<in> set [''bit.ly'', ''tinyurl.com'', ''t.co'', ''goo.gl'',
                     ''ow.ly'', ''is.gd'', ''buff.ly'', ''adf.ly'',
                     ''bl.ink'', ''lnkd.in'', ''rb.gy'', ''shorturl.at'',
                     ''cutt.ly'', ''t.ly''])"

record typosquat_result =
  isTyposquat :: bool
  intendedDomain :: "string option"

text \<open>The loop over the entries \<open>[real, fakes]\<close> of the map; \<open>brand\<close> is the source's \<open>real\<close>.\<close>

fun typosquat_loop :: "string \<Rightarrow> (string \<times> string list) list \<Rightarrow> typosquat_result" where
  "typosquat_loop domainBase [] = \<lparr>isTyposquat = False, intendedDomain = None\<rparr>"
| "typosquat_loop domainBase ((brand, fakes) # rest) =
     (if list_ex (\<lambda>f. str_includes domainBase f) fakes
      then \<lparr>isTyposquat = True, intendedDomain = Some brand\<rparr>
      else if str_includes domainBase (take 3 brand)
              \<and> 0 < levenshteinDistance domainBase brand
              \<and> levenshteinDistance domainBase brand \<le> 2
      then \<lparr>isTyposquat = True, intendedDomain = Some brand\<rparr>
      else typosquat_loop domainBase rest)"

definition domainBaseOf :: "string \<Rightarrow> string" where
  \<comment> \<open>\<open>domain.split(".").slice(0, -1).join(".").toLowerCase()\<close>\<close>
  "domainBaseOf domain = toLowerCase (str_join ''.'' (butlast (str_split CHR ''.'' domain)))"

definition checkTyposquatting :: "string \<Rightarrow> typosquat_result" where
  "checkTyposquatting domain = typosquat_loop (domainBaseOf domain) TYPOSQUAT_MAP"

definition truncateURL :: "string \<Rightarrow> string" where
  \<comment> \<open>\<open>maxLength\<close> has its default, 60, at every call\<close>
  "truncateURL url = (if length url \<le> 60 then url else take 60 url @ ''...'')"

definition encodedCount :: "string \<Rightarrow> nat" where
  \<comment> \<open>\<open>(url.match(/%[0-9a-f]{2}/gi) || []).length\<close>\<close>
  "encodedCount url =
     length (re_match_g
       (Seq (rx_chr CHR ''%'') (rx_times 2 (Cls (\<lambda>c. isDigit c \<or> lowerChar c \<in> set ''abcdef''))))
       url)"

definition analyzeURL :: "(string \<Rightarrow> string option) \<Rightarrow> string option \<Rightarrow> component_result" where
  "analyzeURL hostname urlArg =
     (let result = \<lparr>score = 0, flags = []\<rparr>;
          invalid = \<lparr>score = 50, flags = [Msg ''Invalid or malformed URL'']\<rparr>
      in case urlArg of
           None \<Rightarrow> result
         | Some url \<Rightarrow>
             if url = [] then result
             else (case getDomain hostname url of
                 None \<Rightarrow> invalid
               | Some domain \<Rightarrow>
                   if domain = [] then invalid
                   else if isTrustedDomain domain
                   then \<lparr>score = 0, flags = [Msg ''Verified trusted domain'']\<rparr>
                   else
                     (let r2 = addFlag (re_test IP_ADDRESS url) 40
                                 (Msg ''Uses IP address instead of domain name'') result;
                          tld = ''.'' @ last (str_split CHR ''.'' domain);
                          r3 = addFlag (tld \<in> set SUSPICIOUS_TLDS) 25
                                 (Msg (''Suspicious domain extension: '' @ tld)) r2;
                          subdomainCount = int (length (str_split CHR ''.'' domain)) - 2;
                          r4 = addFlag (subdomainCount \<ge> 3) 20
                                 (Msg (''Excessive subdomains ('' @ decimal (nat subdomainCount)
                                       @ '' levels deep)'')) r3;
                          typosquatResult = checkTyposquatting domain;
                          r5 = addFlag (isTyposquat typosquatResult) 35
                                 (Msg (''Possible typosquatting: looks like '' @ dquote
                                       @ (case intendedDomain typosquatResult of
                                            None \<Rightarrow> ''undefined'' | Some d \<Rightarrow> d)
                                       @ dquote)) r4;
                          r6 = addFlag (isURLShortener domain) 15
                                 (Msg ''URL shortener detected - destination hidden'') r5;
                          r7 = addFlag (re_test SUSPICIOUS_PATHS url) 15
                                 (Msg ''URL path contains login/verification keywords'') r6;
                          r8 = addFlag (re_test AT_SYMBOL url) 30
                                 (Msg ''Contains @ symbol - may redirect to different site'') r7;
                          r9 = addFlag (length url > 150) 10
                                 (Msg ''Unusually long URL'') r8;
                          r10 = addFlag (encodedCount url > 3) 15
                                 (Msg ''Contains multiple encoded characters (obfuscation)'') r9
                      in r10\<lparr>score := min (score r10) 100\<rparr>)))"

record flagged_url = component_result +
  url :: string

record urls_result = component_result +
  urlCount :: nat
  flaggedURLs :: "flagged_url list option"

definition setToArray :: "'a list \<Rightarrow> 'a list" where
  \<comment> \<open>\<open>[...new Set(xs)]\<close>: each value once, in the order of its first occurrence\<close>
  "setToArray xs = fold (\<lambda>x acc. if x \<in> set acc then acc else acc @ [x]) xs []"

definition urlStep ::
  "(string \<Rightarrow> string option) \<Rightarrow> string
     \<Rightarrow> int \<times> flag list \<times> flagged_url list \<Rightarrow> int \<times> flag list \<times> flagged_url list" where
  \<comment> \<open>the body of \<open>urls.forEach\<close> on \<open>(worstScore, allFlags, flaggedURLs)\<close>\<close>
  "urlStep hostname u st =
     (case st of (worstScore, allFlags, flagged) \<Rightarrow>
        let analysis = analyzeURL hostname (Some u)
        in (if score analysis > worstScore then score analysis else worstScore,
            allFlags @ flags analysis,
            if score analysis > 0
            then flagged @ [\<lparr>score = score analysis, flags = flags analysis, url = truncateURL u\<rparr>]
            else flagged))"

definition analyzeAllURLs :: "(string \<Rightarrow> string option) \<Rightarrow> string list option \<Rightarrow> urls_result" where
  "analyzeAllURLs hostname urls =
     (case urls of
        None \<Rightarrow> \<lparr>score = 0, flags = [], urlCount = 0, flaggedURLs = None\<rparr>
      | Some us \<Rightarrow>
          if us = [] then \<lparr>score = 0, flags = [], urlCount = 0, flaggedURLs = None\<rparr>
          else (case fold (urlStep hostname) us (0, [], []) of
                  (worstScore, allFlags, flagged) \<Rightarrow>
                    \<lparr>score = worstScore, flags = setToArray allFlags,
                     urlCount = length us, flaggedURLs = Some flagged\<rparr>))"

datatype js_error = TypeError

record mismatch_result =
  isMismatch :: bool
  company :: "string option"

definition companyNames :: "string list" where
  "companyNames =
     [''amazon'', ''paypal'', ''apple'', ''microsoft'', ''google'',
      ''netflix'', ''chase'', ''wells fargo'', ''bank of america'',
      ''sbi'', ''hdfc'', ''icici'', ''rbi'']"

fun mismatch_loop :: "string \<Rightarrow> string \<Rightarrow> string list \<Rightarrow> mismatch_result" where
  "mismatch_loop displayLower emailDomain [] = \<lparr>isMismatch = False, company = None\<rparr>"
| "mismatch_loop displayLower emailDomain (c # cs) =
     (let companyClean = re_replace_g (Cls isSpace) (\<lambda>_. []) c
      in if str_includes displayLower companyClean \<and> \<not> str_includes emailDomain companyClean
         then \<lparr>isMismatch = True, company = Some c\<rparr>
         else mismatch_loop displayLower emailDomain cs)"

text \<open>
  \<open>email.split("@")[1].split(".")[0]\<close> throws a \<open>TypeError\<close> when the address has no
  \<open>@\<close>; \<open>split(".")[0]\<close> always exists. \<open>analyzeSender\<close> calls the method only when
  the address has a domain, so that it never meets the error.
\<close>

definition checkSenderMismatch :: "string \<Rightarrow> string \<Rightarrow> js_error + mismatch_result" where
  "checkSenderMismatch email displayName =
     (let displayLower = re_replace_g (Cls (\<lambda>c. \<not> isLower c)) (\<lambda>_. []) (toLowerCase displayName)
      in case at_index (str_split CHR ''@'' email) 1 of
           None \<Rightarrow> Inl TypeError
         | Some d \<Rightarrow>
             (case str_split CHR ''.'' d of
                [] \<Rightarrow> Inl TypeError
              | w # _ \<Rightarrow> Inr (mismatch_loop displayLower (toLowerCase w) companyNames)))"

definition truthy :: "string option \<Rightarrow> bool" where
  \<comment> \<open>a string argument in a condition: \<open>undefined\<close>, \<open>null\<close> and \<open>""\<close> are falsy\<close>
  "truthy a = (case a of None \<Rightarrow> False | Some v \<Rightarrow> v \<noteq> [])"

definition orEmpty :: "string option \<Rightarrow> string" where
  "orEmpty a = (case a of None \<Rightarrow> [] | Some v \<Rightarrow> v)"

definition freeProviders :: "string list" where
  "freeProviders =
     [''gmail.com'', ''yahoo.com'', ''hotmail.com'',
      ''outlook.com'', ''aol.com'', ''mail.com'',
      ''protonmail.com'', ''yandex.com'']"

definition orgKeywords :: "string list" where
  "orgKeywords =
     [''bank'', ''paypal'', ''amazon'', ''microsoft'',
      ''apple'', ''google'', ''irs'', ''government'',
      ''support'', ''security'', ''admin'']"

definition analyzeSender :: "string option \<Rightarrow> string option \<Rightarrow> component_result" where
  "analyzeSender senderEmail displayName =
     (let result = \<lparr>score = 0, flags = []\<rparr>
      in if \<not> truthy senderEmail then result
         else
           (let email = trim (toLowerCase (orEmpty senderEmail));
                domainArg = at_index (str_split CHR ''@'' email) 1
            in if \<not> truthy domainArg
               then \<lparr>score = 30, flags = [Msg ''Invalid sender email format'']\<rparr>
               else
                 (let domain = orEmpty domainArg;
                      name = orEmpty displayName;
                      mismatch = (case checkSenderMismatch email name of
                                    Inl _ \<Rightarrow> False | Inr m \<Rightarrow> isMismatch m);
                      r1 = addFlag (truthy displayName \<and> mismatch) 30
                             (Msg (''Sender mismatch: displays as '' @ dquote @ name @ dquote
                                   @ '' but email is '' @ email)) result;
                      lowerDisplay = toLowerCase name;
                      pretending = list_ex (\<lambda>k. str_includes lowerDisplay k) orgKeywords;
                      r2 = addFlag (domain \<in> set freeProviders \<and> truthy displayName \<and> pretending) 35
                             (Msg (dquote @ name @ dquote @ '' using free email ('' @ domain
                                   @ '') - likely impersonation'')) r1;
                      senderTLD = ''.'' @ last (str_split CHR ''.'' domain);
                      r3 = addFlag (senderTLD \<in> set SUSPICIOUS_TLDS) 20
                             (Msg (''Sender domain uses suspicious extension: '' @ senderTLD)) r2;
                      domainWithoutTLD = str_join ''.'' (butlast (str_split CHR ''.'' domain));
                      r4 = addFlag (re_test (Rep 3 None (Cls isDigit)) domainWithoutTLD) 15
                             (Msg ''Sender domain contains excessive numbers'') r3;
                      r5 = addFlag (length domain > 30) 10
                             (Msg ''Unusually long sender domain'') r4
                  in r5\<lparr>score := min (score r5) 100\<rparr>)))"

section \<open>The text analysis (the scoring engine, ai-engine.js)\<close>

definition URGENCY_KEYWORDS :: "string list" where
  "URGENCY_KEYWORDS =
     [''act now'', ''act immediately'', ''urgent action required'',
      ''immediate attention'', ''expires today'', ''last chance'', ''limited time'',
      ''only hours left'', ''deadline'', ''suspend'', ''suspended'',
      ''will be closed'', ''within 24 hours'', ''within 48 hours'',
      ''account will be locked'', ''account compromised'', ''unauthorized access'',
      ''unusual activity'', ''verify immediately'', ''confirm your identity'',
      ''failure to respond'', ''legal action'']"

definition THREAT_KEYWORDS :: "string list" where
  "THREAT_KEYWORDS =
     [''legal action'', ''police report'', ''court order'', ''arrest warrant'',
      ''criminal charges'', ''lawsuit'', ''penalty'', ''fine'', ''prosecution'',
      ''account terminated'', ''permanently banned'', ''report to authorities'',
      ''federal investigation'']"

definition FINANCIAL_KEYWORDS :: "string list" where
  "FINANCIAL_KEYWORDS =
     [''congratulations you've won'', ''you are selected'', ''claim your prize'',
      ''lottery winner'', ''million dollars'', ''inheritance'', ''beneficiary'',
      ''unclaimed funds'', ''wire transfer'', ''western union'', ''moneygram'',
      ''bitcoin payment'', ''cryptocurrency'', ''investment opportunity'',
      ''guaranteed returns'', ''double your money'', ''risk free'',
      ''credit card required'', ''ssn'', ''social security'', ''bank account details'',
      ''routing number'', ''pin number'', ''cvv'']"

definition IMPERSONATION_KEYWORDS :: "string list" where
  "IMPERSONATION_KEYWORDS =
     [''dear customer'', ''dear user'', ''dear member'', ''valued customer'',
      ''account holder'', ''we have detected'', ''we noticed'',
      ''your account has been'', ''as per our records'', ''security department'',
      ''fraud department'', ''technical support'', ''helpdesk'', ''official notice'',
      ''important notification'']"

definition ACTION_KEYWORDS :: "string list" where
  "ACTION_KEYWORDS =
     [''click here'', ''click below'', ''click the link'', ''log in here'',
      ''sign in'', ''verify your account'', ''update your information'',
      ''confirm your details'', ''download attachment'', ''open attached'',
      ''fill out the form'', ''submit your'', ''reply with your'',
      ''send your details'', ''call this number'', ''contact us immediately'']"

definition HINGLISH_KEYWORDS :: "string list" where
  "HINGLISH_KEYWORDS =
     [''aapka account'', ''aapka khata'', ''block ho jayega'', ''band ho jayega'',
      ''kyc update'', ''kyc verification'', ''aadhar card'', ''aadhaar'',
      ''pan card link'', ''pan card update'', ''upi id'', ''paytm kyc'', ''phonepe'',
      ''google pay'', ''sbi bank'', ''rbi notice'', ''income tax notice'',
      ''gst notice'', ''custom duty'', ''parcel roka gaya'', ''lottery jeet'',
      ''prize jeeta'', ''crore rupees'', ''lakh rupees'']"

definition GRAMMAR_INDICATORS :: "string list" where
  "GRAMMAR_INDICATORS =
     [''kindly do the needful'', ''revert back'', ''please to'', ''we was'',
      ''you has been'', ''your been selected'', ''informations'', ''dears'',
      ''sir/madam'', ''respected sir'', ''aborting your'', ''aborting the transaction'']"

text \<open>The redaction of \<open>anonymizeText\<close> (utils/helpers.js), four replacements in a row.\<close>

definition EMAIL_RX :: rx where
  \<comment> \<open>\<open>/[a-zA-Z0-9._%+-]+@[a-zA-Z0-9.-]+\.[a-zA-Z]{2,}/g\<close>\<close>
  "EMAIL_RX =
     seqs [rx_plus (Cls (\<lambda>c. isAlpha c \<or> isDigit c \<or> c \<in> set ''._%+-'')),
           rx_chr CHR ''@'',
           rx_plus (Cls (\<lambda>c. isAlpha c \<or> isDigit c \<or> c \<in> set ''.-'')),
           rx_chr CHR ''.'',
           Rep 2 None (Cls isAlpha)]"

definition PHONE_RX :: rx where
  \<comment> \<open>\<open>/(?:\+?\d{1,3}[ -]?)?\(?\d{3}\)?[ -]?\d{3}[ -]?\d{4}/g\<close>\<close>
  "PHONE_RX =
     seqs [rx_opt (seqs [rx_opt (rx_chr CHR ''+''), Rep 1 (Some 3) (Cls isDigit),
                         rx_opt (rx_oneOf '' -'')]),
           rx_opt (rx_chr CHR ''(''), rx_times 3 (Cls isDigit), rx_opt (rx_chr CHR '')''),
           rx_opt (rx_oneOf '' -''), rx_times 3 (Cls isDigit),
           rx_opt (rx_oneOf '' -''), rx_times 4 (Cls isDigit)]"

definition CARD_RX :: rx where
  \<comment> \<open>\<open>/\b(?:\d{4}[ -]?){3}\d{4}\b/g\<close>\<close>
  "CARD_RX =
     seqs [WordB, rx_times 3 (Seq (rx_times 4 (Cls isDigit)) (rx_opt (rx_oneOf '' -''))),
           rx_times 4 (Cls isDigit), WordB]"

definition GREETING_RX :: rx where
  \<comment> \<open>\<open>/(Hi|Hello|Dear)\s+([A-Z][a-z]+)/g\<close>\<close>
  "GREETING_RX =
     seqs [alts [rx_lit ''Hi'', rx_lit ''Hello'', rx_lit ''Dear''],
           rx_plus (Cls isSpace), Cls isUpper, rx_plus (Cls isLower)]"

definition greetingWord :: "string \<Rightarrow> string" where
  \<comment> \<open>\<open>$1\<close> of a match of \<open>GREETING_RX\<close>: the alternative the match starts with\<close>
  "greetingWord m =
     (if startsWith m ''Hi'' then ''Hi'' else if startsWith m ''Hello'' then ''Hello'' else ''Dear'')"

definition anonymizeText :: "string \<Rightarrow> string" where
  "anonymizeText text =
     (if text = [] then []
      else re_replace_g GREETING_RX (\<lambda>m. greetingWord m @ '' [REDACTED_NAME]'')
             (re_replace_g CARD_RX (\<lambda>_. ''[REDACTED_CARD]'')
               (re_replace_g PHONE_RX (\<lambda>_. ''[REDACTED_PHONE]'')
                 (re_replace_g EMAIL_RX (\<lambda>_. ''[REDACTED_EMAIL]'') text))))"

text \<open>
  The engine reads members of \<open>PhishGuardHelpers\<close> and of \<open>SCAM_CONSTANTS\<close> that
  utils/helpers.js and utils/constants.js do not define, the model loaded at start-up and
  the platform's URL parser. They are the fields of the environment:
  \<^item> \<open>fuzzyMatch\<close>, if the helpers have one (the engine tests it before every call);
  \<^item> \<open>calibrateScore\<close> and \<open>getAdaptiveWeights\<close>, called without a test;
  \<^item> \<open>BRAND_KEYWORDS\<close>, if the constants have it;
  \<^item> \<open>phishingModel\<close>, \<open>None\<close> when no model was loaded;
  \<^item> \<open>hostname\<close>, the parser behind \<open>getDomain\<close>.
  A JavaScript number is a rational here: the arithmetic of the engine is done exactly.
\<close>

record score_weights =
  TEXT :: rat
  URL :: rat
  SENDER :: rat

record 'm env =
  fuzzyMatch :: "(string \<Rightarrow> string \<Rightarrow> bool) option"
  calibrateScore :: "rat \<Rightarrow> string \<Rightarrow> rat"
  getAdaptiveWeights :: "string option \<Rightarrow> score_weights option"
  BRAND_KEYWORDS :: "string list option"
  phishingModel :: "'m option"
  hostname :: "string \<Rightarrow> string option"

definition mathRound :: "rat \<Rightarrow> int" where
  \<comment> \<open>\<open>Math.round\<close>: to the nearest integer, a half upwards\<close>
  "mathRound x = \<lfloor>x + 1 / 2\<rfloor>"

definition matchKeyword :: "'m env \<Rightarrow> string \<Rightarrow> string \<Rightarrow> bool" where
  \<comment> \<open>\<open>PhishGuardHelpers.fuzzyMatch ? PhishGuardHelpers.fuzzyMatch(text, kw) : text.includes(kw)\<close>\<close>
  "matchKeyword e text kw =
     (case fuzzyMatch e of None \<Rightarrow> str_includes text kw | Some f \<Rightarrow> f text kw)"

definition findKeywordMatches :: "'m env \<Rightarrow> string \<Rightarrow> string list option \<Rightarrow> string list" where
  "findKeywordMatches e text keywordsArg =
     (if text = [] then []
      else (let lowerText = toLowerCase text
            in filter (\<lambda>keyword. matchKeyword e lowerText (toLowerCase keyword))
                 (case keywordsArg of None \<Rightarrow> [] | Some ks \<Rightarrow> ks)))"

record caps_info =
  ratio :: rat
  totalLetters :: nat
  totalCaps :: nat

definition calculateCapsRatio :: "string \<Rightarrow> caps_info" where
  "calculateCapsRatio text =
     (if text = [] \<or> length text < 5 then \<lparr>ratio = 0, totalLetters = 0, totalCaps = 0\<rparr>
      else (let letters = re_replace_g (Cls (\<lambda>c. \<not> isAlpha c)) (\<lambda>_. []) text
            in if length letters = 0 then \<lparr>ratio = 0, totalLetters = 0, totalCaps = 0\<rparr>
               else (let caps = re_replace_g (Cls (\<lambda>c. \<not> isUpper c)) (\<lambda>_. []) letters
                     in \<lparr>ratio = of_nat (length caps) / of_nat (length letters),
                         totalLetters = length letters, totalCaps = length caps\<rparr>)))"

definition nlpPhishingScore :: "'m env \<Rightarrow> string \<Rightarrow> rat" where
  \<comment> \<open>the stub returns 0 on each of its paths: no model, a model without tokenizer, an exception\<close>
  "nlpPhishingScore e text = (case phishingModel e of None \<Rightarrow> 0 | Some _ \<Rightarrow> 0)"

record text_result = component_result +
  confidence :: rat

definition quoted :: "string list \<Rightarrow> string" where
  \<comment> \<open>\<open>"${matches.join(", ")}"\<close>\<close>
  "quoted ms = dquote @ str_join '', '' ms @ dquote"

definition analyzeText :: "'m env \<Rightarrow> string \<Rightarrow> string \<Rightarrow> string \<Rightarrow> text_result" where
  "analyzeText e body subject senderDomain =
     (let result = \<lparr>score = 0, flags = [], confidence = 0\<rparr>;
          cleanBody = anonymizeText body;
          cleanSubject = anonymizeText subject;
          fullText = toLowerCase (cleanSubject @ '' '' @ cleanBody)
      in if trim fullText = [] then result
         else
           (let nlpScore = nlpPhishingScore e fullText;
                r0 = addFlag (nlpScore > 6 / 10) (mathRound (nlpScore * 40))
                       (Coded ''NLP_MODEL''
                          (''AI model flagged this as phishing with ''
                           @ decimal (nat (mathRound (nlpScore * 100))) @ ''% confidence'')) result;
                urgencyMatches = findKeywordMatches e fullText (Some URGENCY_KEYWORDS);
                r1 = addFlag (length urgencyMatches > 0)
                       (min (int (length urgencyMatches) * 12) 30)
                       (Coded ''URGENCY'' (''Urgency tactics: '' @ quoted urgencyMatches)) r0;
                threatMatches = findKeywordMatches e fullText (Some THREAT_KEYWORDS);
                r2 = addFlag (length threatMatches > 0)
                       (min (int (length threatMatches) * 15) 30)
                       (Coded ''THREAT'' (''Threatening language: '' @ quoted threatMatches)) r1;
                financialMatches = findKeywordMatches e fullText (Some FINANCIAL_KEYWORDS);
                r3 = addFlag (length financialMatches > 0)
                       (min (int (length financialMatches) * 10) 27)
                       (Coded ''FINANCIAL'' (''Financial bait: '' @ quoted financialMatches)) r2;
                impersonationMatches = findKeywordMatches e fullText (Some IMPERSONATION_KEYWORDS);
                r4 = addFlag (length impersonationMatches \<ge> 2) 15
                       (Coded ''IMPERSONATION''
                          ''Generic impersonation language (e.g., 'Dear Customer')'') r3;
                actionMatches = findKeywordMatches e fullText (Some ACTION_KEYWORDS);
                r5 = addFlag (length actionMatches > 0)
                       (min (int (length actionMatches) * 8) 25)
                       (Coded ''ACTION'' (''Pushes you to act: '' @ quoted actionMatches)) r4;
                hinglishMatches = findKeywordMatches e fullText (Some HINGLISH_KEYWORDS);
                r6 = addFlag (length hinglishMatches > 0)
                       (min (int (length hinglishMatches) * 10) 20)
                       (Coded ''HINGLISH'' (''Regional scam pattern: '' @ quoted hinglishMatches)) r5;
                grammarMatches = findKeywordMatches e fullText (Some GRAMMAR_INDICATORS);
                r7 = addFlag (length grammarMatches > 0)
                       (min (int (length grammarMatches) * 8) 10)
                       (Coded ''GRAMMAR'' ''Contains grammar errors common in scam emails'') r6;
                capsInfo = calculateCapsRatio body;
                r8 = addFlag (ratio capsInfo > 3 / 10 \<and> length body > 50) 10
                       (Coded ''CAPS'' ''Excessive use of CAPITAL LETTERS (shouting tactic)'') r7;
                exclamationCount = length (re_match_g (Rep 2 None (rx_chr CHR ''!'')) body);
                questionCount = length (re_match_g (Rep 2 None (rx_chr CHR ''?'')) body);
                r9 = addFlag (exclamationCount + questionCount \<ge> 3) 8
                       (Coded ''PUNCTUATION''
                          ''Excessive punctuation (!! or ??) - common in scams'') r8;
                brandMatches = findKeywordMatches e fullText (BRAND_KEYWORDS e);
                mismatch = list_ex (\<lambda>brand. \<not> str_includes senderDomain (toLowerCase brand))
                             brandMatches;
                r10 = addFlag (length brandMatches > 0 \<and> senderDomain \<noteq> [] \<and> mismatch) 20
                        (Coded ''DOMAIN_MISMATCH''
                           (''Mentions '' @ quoted brandMatches @ '' but sender domain is ''
                            @ senderDomain)) r9;
                r11 = r10\<lparr>score := min (score r10) 100\<rparr>
            in r11\<lparr>confidence := of_nat (length (flags r11)) / 10\<rparr>))"

section \<open>The category classifier\<close>

text \<open>
  An entry of \<open>SCAM_CATEGORIES\<close>. The classifier reads \<open>weights\<close>, \<open>severity\<close> and
  \<open>minMatch\<close> of an entry whether the table gives them or not: \<open>weights\<close> is the
  association list of the weights given (none when the entry has no \<open>weights\<close>), and a
  \<open>severity\<close> or \<open>minMatch\<close> that is not given is \<open>None\<close>. The icon is a list of code points;
  \<open>keywords'\<close> is the field \<open>keywords\<close>.
\<close>

record category =
  label :: string
  icon :: "int list"
  keywords' :: "string list"
  weights :: "(string \<times> int) list"
  severity :: "int option"
  minMatch :: "int option"

definition SCAM_CATEGORIES :: "(string \<times> category) list" where
  \<comment> \<open>the entries in the order of the object literal; no entry has weights, a severity or a minMatch\<close>
  "SCAM_CATEGORIES =
     [
      (''BANKING'',
       \<lparr>label = ''Banking/Financial Scam'', icon = [0x1F3E6],
        keywords' =
          [''bank'', ''account'', ''credit'', ''debit'', ''transaction'', ''payment'',
           ''transfer''],
        weights = [], severity = None, minMatch = None\<rparr>),
      (''DELIVERY'',
       \<lparr>label = ''Package/Delivery Scam'', icon = [0x1F4E6],
        keywords' =
          [''package'', ''delivery'', ''shipment'', ''tracking'', ''fedex'', ''ups'',
           ''amazon'', ''order''],
        weights = [], severity = None, minMatch = None\<rparr>),
      (''JOB'',
       \<lparr>label = ''Job/Employment Scam'', icon = [0x1F4BC],
        keywords' =
          [''job offer'', ''work from home'', ''earn money'', ''hiring'', ''salary'',
           ''income'', ''opportunity''],
        weights = [], severity = None, minMatch = None\<rparr>),
      (''GOVERNMENT'',
       \<lparr>label = ''Government Impersonation'', icon = [0x1F3DB, 0xFE0F],
        keywords' =
          [''irs'', ''tax'', ''government'', ''court'', ''legal'', ''police'',
           ''federal'', ''social security''],
        weights = [], severity = None, minMatch = None\<rparr>),
      (''LOTTERY'',
       \<lparr>label = ''Lottery/Prize Scam'', icon = [0x1F3B0],
        keywords' =
          [''winner'', ''prize'', ''lottery'', ''congratulations'', ''selected'',
           ''lucky'', ''claim''],
        weights = [], severity = None, minMatch = None\<rparr>),
      (''ROMANCE'',
       \<lparr>label = ''Romance/Dating Scam'', icon = [0x1F495],
        keywords' =
          [''lonely'', ''love'', ''relationship'', ''dating'', ''beautiful'',
           ''handsome'', ''meet me''],
        weights = [], severity = None, minMatch = None\<rparr>),
      (''TECH_SUPPORT'',
       \<lparr>label = ''Tech Support Scam'', icon = [0x1F5A5, 0xFE0F],
        keywords' =
          [''virus detected'', ''computer infected'', ''tech support'', ''microsoft'',
           ''apple support'', ''security alert''],
        weights = [], severity = None, minMatch = None\<rparr>),
      (''CRYPTO'',
       \<lparr>label = ''Cryptocurrency Scam'', icon = [0x1FA99],
        keywords' =
          [''bitcoin'', ''ethereum'', ''crypto'', ''blockchain'', ''nft'', ''token'',
           ''wallet'', ''mining''],
        weights = [], severity = None, minMatch = None\<rparr>)]"

definition orNumber :: "int option \<Rightarrow> int \<Rightarrow> int" where
  \<comment> \<open>\<open>a || d\<close> on a number: \<open>undefined\<close> and \<open>0\<close> are falsy\<close>
  "orNumber a d = (case a of None \<Rightarrow> d | Some v \<Rightarrow> if v = 0 then d else v)"

definition weightOf :: "'a category_scheme \<Rightarrow> string \<Rightarrow> int" where
  \<comment> \<open>\<open>cat.weights?.[kw] || 1\<close>\<close>
  "weightOf cat kw = orNumber (map_of (weights cat) kw) 1"

record best_category = category +
  matchedKeywords :: "string list"
  matchScore :: int

definition categoryScore :: "'m env \<Rightarrow> string \<Rightarrow> category \<Rightarrow> int" where
  \<comment> \<open>\<open>cat.keywords.reduce((sum, kw) => matched ? sum + weight : sum, 0)\<close>\<close>
  "categoryScore e lowerText cat =
     fold (\<lambda>kw sum. if matchKeyword e lowerText kw then sum + weightOf cat kw else sum)
          (keywords' cat) 0"

definition categoryStep ::
  "'m env \<Rightarrow> string \<Rightarrow> string \<times> category
     \<Rightarrow> best_category option \<times> int \<Rightarrow> best_category option \<times> int" where
  \<comment> \<open>the body of the loop over the entries, on \<open>(bestCategory, bestMatchScore)\<close>\<close>
  "categoryStep e lowerText entry st =
     (case st of (bestCategory, bestMatchScore) \<Rightarrow>
        let cat = snd entry;
            matchScore = categoryScore e lowerText cat
        in if matchScore > bestMatchScore
              \<or> (matchScore = bestMatchScore
                  \<and> orNumber (severity cat) 0
                      > orNumber (case bestCategory of None \<Rightarrow> None | Some b \<Rightarrow> severity b) 0)
           then (Some (category.extend cat
                         \<lparr>matchedKeywords = filter (matchKeyword e lowerText) (keywords' cat),
                          matchScore = matchScore\<rparr>),
                 matchScore)
           else (bestCategory, bestMatchScore))"

record signals =
  textScore :: int
  urlScore :: int
  senderScore :: int
  urlFlags :: "flag list"
  senderFlags :: "flag list"

text \<open>
  The classifier's result: the best entry with its \<open>confidence\<close> and \<open>signals\<close>. The
  confidence is \<open>None\<close> when the division by the number of keywords has no finite value.
\<close>

record category_match = best_category +
  confidence :: "rat option"
  signals :: signals

definition detectCategory ::
  "'m env \<Rightarrow> (string \<times> category) list \<Rightarrow> string
     \<Rightarrow> text_result \<Rightarrow> urls_result \<Rightarrow> component_result \<Rightarrow> category_match option" where
  "detectCategory e cats text textResult urlResult senderResult =
     (if text = [] then None
      else
        (let lowerText = toLowerCase text
         in case fold (categoryStep e lowerText) cats (None, 0) of
              (None, _) \<Rightarrow> None
            | (Some bestCategory, bestMatchScore) \<Rightarrow>
                let threshold = orNumber (minMatch bestCategory) 2;
                    hasExtraSignals = (length (flags urlResult) > 0 \<or> length (flags senderResult) > 0);
                    effectiveThreshold = (if hasExtraSignals then threshold - 1 else threshold)
                in if bestMatchScore \<ge> effectiveThreshold
                      \<or> (bestMatchScore = 1 \<and> score textResult \<ge> 50)
                   then Some (best_category.extend bestCategory
                          \<lparr>confidence =
                             (if keywords' bestCategory = [] then None
                              else Some (of_int bestMatchScore
                                         / of_nat (length (keywords' bestCategory)))),
                           signals =
                             \<lparr>textScore = score textResult, urlScore = score urlResult,
                              senderScore = score senderResult, urlFlags = flags urlResult,
                              senderFlags = flags senderResult\<rparr>\<rparr>)
                   else None))"

section \<open>The explanation\<close>

record metadata =
  textScore :: int
  urlScore :: int
  senderScore :: int
  categoryConfidence :: "rat option"
  severity :: "int option"

text \<open>
  \<open>details\<close> holds \<open>f.message || f\<close> for every flag \<open>f\<close> (a string, or the flag itself when
  it has no message); a tip is \<open>None\<close> when the map of tips has no entry for the key.
\<close>

record explanation =
  summary :: string
  details :: "flag list"
  educationalTips :: "string option list"
  metadata :: metadata

definition flagCode :: "flag \<Rightarrow> string option" where
  \<comment> \<open>\<open>f.code\<close>\<close>
  "flagCode f = (case f of Msg _ \<Rightarrow> None | Coded c _ \<Rightarrow> Some c)"

definition messageOrFlag :: "flag \<Rightarrow> flag" where
  \<comment> \<open>\<open>f.message || f\<close>\<close>
  "messageOrFlag f = (case f of Msg m \<Rightarrow> Msg m | Coded c m \<Rightarrow> if m = [] then Coded c m else Msg m)"

definition nullIfZero :: "rat option \<Rightarrow> rat option" where
  \<comment> \<open>\<open>a || null\<close> on a number\<close>
  "nullIfZero a = (case a of None \<Rightarrow> None | Some v \<Rightarrow> if v = 0 then None else Some v)"

definition educationalTipsMap :: "(string \<times> string) list" where
  "educationalTipsMap =
     [(''BANKING'', ''Real banks NEVER ask for passwords, PINs, or OTPs via email.''),
      (''DELIVERY'', ''Check your actual order history on the retailer's official site.''),
      (''JOB'', ''Legitimate employers never ask for money upfront.''),
      (''GOVERNMENT'', ''Government agencies never threaten immediate arrest via email.''),
      (''LOTTERY'', ''You can't win a lottery you never entered.''),
      (''ROMANCE'', ''Never send money to someone you've only met online.''),
      (''TECH_SUPPORT'', ''Microsoft, Apple, and Google will never email you about viruses.''),
      (''CRYPTO'', ''No legitimate investment guarantees returns.'')]"

definition blendedScore :: "int \<Rightarrow> int \<Rightarrow> int \<Rightarrow> int" where
  \<comment> \<open>\<open>Math.round(text * 0.4 + url * 0.4 + sender * 0.2)\<close>\<close>
  "blendedScore t u s = mathRound (of_int t * (4 / 10) + of_int u * (4 / 10) + of_int s * (2 / 10))"

definition generateExplanation ::
  "(string \<times> category) list \<Rightarrow> text_result \<Rightarrow> urls_result \<Rightarrow> component_result
     \<Rightarrow> category_match option \<Rightarrow> explanation" where
  "generateExplanation cats textResult urlResult senderResult categoryArg =
     (let allFlags = flags textResult @ flags urlResult @ flags senderResult;
          categoryConf = nullIfZero (case categoryArg of None \<Rightarrow> None | Some c \<Rightarrow> category_match.confidence c);
          categorySeverity = (case categoryArg of None \<Rightarrow> None | Some c \<Rightarrow> category.severity c)
      in if length allFlags = 0
         then \<lparr>summary = ''[ok] SAFE: No scam indicators detected.'',
               details = [],
               educationalTips = [Some ''Always verify unexpected requests through official channels.''],
               metadata = \<lparr>textScore = score textResult, urlScore = score urlResult,
                            senderScore = score senderResult, categoryConfidence = categoryConf,
                            severity = None\<rparr>\<rparr>
         else
           (let totalScore = blendedScore (score textResult) (score urlResult) (score senderResult);
                hasStrongNonTextSignals = (score urlResult > 20 \<or> score senderResult > 15);
                severityBoost = orNumber categorySeverity 0;
                adjustedScore = totalScore + severityBoost * 10;
                summaryText =
                  (if adjustedScore \<ge> 70 \<and> hasStrongNonTextSignals
                   then ''[!] HIGH RISK: ''
                        @ (case categoryArg of None \<Rightarrow> ''Potential Scam'' | Some c \<Rightarrow> label c)
                        @ '' Detected''
                   else if adjustedScore \<ge> 70
                   then ''[~] CAUTION: Suspicious text patterns detected, but no strong sender/URL evidence''
                   else if adjustedScore \<ge> 30
                   then ''[~] CAUTION: Some suspicious elements found''
                   else ''[ok] LOW RISK: Minor concerns detected'');
                hasCode = (\<lambda>fs c. list_ex (\<lambda>f. flagCode f = Some c) fs);
                flagTips =
                  (if hasCode (flags textResult) ''URGENCY''
                   then [''Scammers often pressure you with urgency. Pause and verify before acting.'']
                   else [])
                  @ (if hasCode (flags textResult) ''THREAT''
                     then [''Threatening language is a scare tactic. Legitimate organizations don't threaten arrest or fines via email.'']
                     else [])
                  @ (if hasCode (flags urlResult) ''SUSPICIOUS_URL''
                     then [''Hover over links to check the real domain before clicking.'']
                     else [])
                  @ (if hasCode (flags senderResult) ''MISMATCH''
                     then [''Sender address doesn't match display name - a common impersonation trick.'']
                     else []);
                categoryKey =
                  (case categoryArg of
                     None \<Rightarrow> None
                   | Some c \<Rightarrow> map_option fst (find (\<lambda>entry. label (snd entry) = label c) cats))
            in \<lparr>summary = summaryText,
                details =
                  map messageOrFlag allFlags
                  @ (case categoryArg of
                       None \<Rightarrow> []
                     | Some c \<Rightarrow> [Msg (''Category keywords: '' @ str_join '', '' (matchedKeywords c))]),
                educationalTips =
                  (if length flagTips > 0 then map Some flagTips
                   else if truthy categoryKey then [map_of educationalTipsMap (orEmpty categoryKey)]
                   else [Some ''When in doubt, contact the organization directly using their official website or phone number.'']),
                metadata = \<lparr>textScore = score textResult, urlScore = score urlResult,
                             senderScore = score senderResult, categoryConfidence = categoryConf,
                             severity = (case categorySeverity of
                                           None \<Rightarrow> None
                                         | Some v \<Rightarrow> if v = 0 then None else Some v)\<rparr>\<rparr>))"

section \<open>The scan\<close>

record risk_level =
  min' :: int
  max' :: int
  label :: string
  color :: string

definition RISK_SAFE :: risk_level where
  "RISK_SAFE = \<lparr>min' = 0, max' = 29, label = ''Safe'', color = ''#22c55e''\<rparr>"

definition RISK_CAUTION :: risk_level where
  "RISK_CAUTION = \<lparr>min' = 30, max' = 69, label = ''Caution'', color = ''#f59e0b''\<rparr>"

definition RISK_DANGER :: risk_level where
  "RISK_DANGER = \<lparr>min' = 70, max' = 100, label = ''High Risk'', color = ''#ef4444''\<rparr>"

definition formatRiskResult :: "int \<Rightarrow> risk_level" where
  \<comment> \<open>the level found; the \<open>score\<close> copied into the result is the argument\<close>
  "formatRiskResult s =
     (if s \<le> max' RISK_SAFE then RISK_SAFE
      else if s \<le> max' RISK_CAUTION then RISK_CAUTION
      else RISK_DANGER)"

record email_data =
  body :: string
  subject :: "string option"
  sender :: "string option"
  displayName :: "string option"
  urls :: "string list option"
  tenantId :: "string option"

text \<open>
  What a call reads from the clock and the random generator: \<open>Date.now()\<close> and the random
  suffix of \<open>generateScanId\<close>, the two readings of \<open>performance.now()\<close>, and \<open>Date.now()\<close> for
  the timestamp.
\<close>

record clock =
  idNow :: nat
  idRandom :: string
  perfStart :: rat
  perfEnd :: rat
  stampNow :: nat

definition generateScanId :: "clock \<Rightarrow> string" where
  "generateScanId c = ''scan_'' @ decimal (idNow c) @ ''_'' @ idRandom c"

record scan_details =
  textScore :: int
  urlScore :: int
  senderScore :: int
  textFlags :: "flag list"
  urlFlags :: "flag list"
  senderFlags :: "flag list"
  urlCount :: "nat"
  flaggedURLs :: "flagged_url list"

record scan_result =
  scanId :: string
  score :: int
  riskLevel :: string
  color :: string
  category :: string
  categoryIcon :: "int list"
  explanation :: explanation
  details :: scan_details
  confidence :: rat
  processingTime :: int
  timestamp :: nat

definition defaultWeights :: score_weights where
  "defaultWeights = \<lparr>TEXT = 35 / 100, URL = 40 / 100, SENDER = 25 / 100\<rparr>"

definition finalScore :: "'m env \<Rightarrow> string option \<Rightarrow> int \<Rightarrow> int \<Rightarrow> int \<Rightarrow> int" where
  \<comment> \<open>step 4 of \<open>analyze\<close>: calibrate, weigh, scale to 0-100 and round\<close>
  "finalScore e tenant t u s =
     (let calibratedText = calibrateScore e (of_int t / 100) ''TEXT'';
          calibratedURL = calibrateScore e (of_int u / 100) ''URL'';
          calibratedSender = calibrateScore e (of_int s / 100) ''SENDER'';
          w = (case getAdaptiveWeights e tenant of None \<Rightarrow> defaultWeights | Some v \<Rightarrow> v);
          rawScore = calibratedText * TEXT w + calibratedURL * URL w + calibratedSender * SENDER w
      in mathRound (rawScore * 100))"

definition senderDomainOf :: "string option \<Rightarrow> string" where
  \<comment> \<open>\<open>emailData.sender ? emailData.sender.split("@")[1] : ""\<close>, and \<open>""\<close> by default for \<open>undefined\<close>\<close>
  "senderDomainOf a =
     (if truthy a then orEmpty (at_index (str_split CHR ''@'' (orEmpty a)) 1) else [])"

definition analyze :: "'m env \<Rightarrow> clock \<Rightarrow> email_data \<Rightarrow> scan_result" where
  "analyze e c emailData =
     (let textResult = analyzeText e (body emailData) (orEmpty (subject emailData))
                         (senderDomainOf (sender emailData));
          urlResult = analyzeAllURLs (hostname e) (urls emailData);
          senderResult = analyzeSender (sender emailData) (displayName emailData);
          final = finalScore e (tenantId emailData) (component_result.score textResult)
                    (component_result.score urlResult) (component_result.score senderResult);
          categoryFound = detectCategory e SCAM_CATEGORIES (body emailData)
                            textResult urlResult senderResult;
          expl = generateExplanation SCAM_CATEGORIES textResult urlResult senderResult categoryFound;
          level = formatRiskResult final
      in \<lparr>scanId = generateScanId c,
          score = final,
          riskLevel = risk_level.label level,
          color = risk_level.color level,
          category = (case categoryFound of None \<Rightarrow> ''General'' | Some m \<Rightarrow> category.label m),
          categoryIcon = (case categoryFound of None \<Rightarrow> [0x1F4E7] | Some m \<Rightarrow> icon m),
          explanation = expl,
          details =
            \<lparr>textScore = component_result.score textResult,
             urlScore = component_result.score urlResult,
             senderScore = component_result.score senderResult,
             textFlags = flags textResult,
             urlFlags = flags urlResult,
             senderFlags = flags senderResult,
             urlCount = urls_result.urlCount urlResult,
             flaggedURLs = (case urls_result.flaggedURLs urlResult of None \<Rightarrow> [] | Some fs \<Rightarrow> fs)\<rparr>,
          confidence = text_result.confidence textResult,
          processingTime = mathRound (perfEnd c - perfStart c),
          timestamp = stampNow c\<rparr>)"

section \<open>The runner's fallbacks\<close>


section \<open>Vocabulary of the properties\<close>


text \<open>
  The score that decides the tone of the summary: the rounded blend of the three scores
  plus ten times the severity of the category; and the test for a strong signal outside
  the text.
\<close>

definition adjustedScore ::
  "text_result \<Rightarrow> urls_result \<Rightarrow> component_result \<Rightarrow> category_match option \<Rightarrow> int" where
  "adjustedScore t u s c =
     blendedScore (component_result.score t) (component_result.score u) (component_result.score s)
     + orNumber (case c of None \<Rightarrow> None | Some m \<Rightarrow> category.severity m) 0 * 10"




text \<open>
  The effective threshold in the words of the specification: the category's minimum
  match (2 when the entry gives none), one less but not below 0 when the URL analysis or
  the sender analysis raised a flag.
\<close>

definition effectiveThreshold :: "category_match \<Rightarrow> urls_result \<Rightarrow> component_result \<Rightarrow> int" where
  "effectiveThreshold m u s =
     (if flags u \<noteq> [] \<or> flags s \<noteq> [] then max 0 (orNumber (minMatch m) 2 - 1)
      else orNumber (minMatch m) 2)"

definition bestEntry :: "'m env \<Rightarrow> string \<Rightarrow> category \<Rightarrow> best_category" where
  "bestEntry e lowerText cat =
     category.extend cat
       \<lparr>matchedKeywords = filter (matchKeyword e lowerText) (keywords' cat),
        matchScore = categoryScore e lowerText cat\<rparr>"


text \<open>The flags of a result carry pairwise different codes, all from \<open>S\<close>.\<close>

definition codesWithin :: "'a component_result_scheme \<Rightarrow> string set \<Rightarrow> bool" where
  "codesWithin r S = (set (map flagCode (flags r)) \<subseteq> Some ` S \<and> distinct (map flagCode (flags r)))"

text \<open>
  The edit distance with unit costs, by its recurrence on the lengths of the prefixes:
  \<open>lev a b i j\<close> is the distance between the first \<open>i\<close> characters of \<open>a\<close> and the first \<open>j\<close>
  characters of \<open>b\<close>. A table is well formed when it has \<open>m + 1\<close> rows of \<open>n + 1\<close> cells,
  and filled up to \<open>(i, j)\<close> when the first row, the first column, the rows before \<open>i\<close> and
  the cells of row \<open>i\<close> before \<open>j\<close> hold the distances of their prefixes.
\<close>

fun lev :: "string \<Rightarrow> string \<Rightarrow> nat \<Rightarrow> nat \<Rightarrow> nat" where
  "lev a b 0 j = j"
| "lev a b (Suc i) 0 = Suc i"
| "lev a b (Suc i) (Suc j) =
     min (min (lev a b i (Suc j) + 1) (lev a b (Suc i) j + 1))
         (lev a b i j + (if a ! i = b ! j then 0 else 1))"

definition wf_table :: "nat \<Rightarrow> nat \<Rightarrow> nat list list \<Rightarrow> bool" where
  "wf_table m n dp = (length dp = m + 1 \<and> (\<forall>r\<in>set dp. length r = n + 1))"

definition filled :: "string \<Rightarrow> string \<Rightarrow> nat \<Rightarrow> nat \<Rightarrow> nat list list \<Rightarrow> bool" where
  "filled a b i j dp =
     (wf_table (length a) (length b) dp
      \<and> (\<forall>i' j'. i' \<le> length a \<and> j' \<le> length b
                   \<and> (i' = 0 \<or> j' = 0 \<or> i' < i \<or> (i' = i \<and> j' < j))
                 \<longrightarrow> dp ! i' ! j' = lev a b i' j'))"

text \<open>The invariant of the loop over the categories, after the entries \<open>seen\<close>.\<close>

definition loopInv ::
  "'m env \<Rightarrow> string \<Rightarrow> (string \<times> category) list \<Rightarrow> best_category option \<times> int \<Rightarrow> bool" where
  "loopInv e lt seen st =
     (0 \<le> snd st
      \<and> (\<forall>entry\<in>set seen. categoryScore e lt (snd entry) \<le> snd st)
      \<and> (case fst st of
            None \<Rightarrow> True
          | Some b \<Rightarrow> \<exists>entry\<in>set seen. b = bestEntry e lt (snd entry)
                                        \<and> snd st = categoryScore e lt (snd entry)))"

section \<open>Sample inputs\<close>



definition sampleClock :: clock where
  "sampleClock = \<lparr>idNow = 1700000000000, idRandom = ''k3j9x0q1z'', perfStart = 10, perfEnd = 25 / 2,
                   stampNow = 1700000000003\<rparr>"




definition noLinks :: urls_result where
  "noLinks = \<lparr>component_result.score = 0, flags = [], urls_result.urlCount = 0,
              urls_result.flaggedURLs = None\<rparr>"

definition quietSender :: component_result where
  "quietSender = \<lparr>component_result.score = 0, flags = []\<rparr>"


definition greeting :: email_data where
  "greeting =
     \<lparr>body = ''Hello there'', subject = None, sender = None, displayName = None,
      urls = None, tenantId = None\<rparr>"

definition plainEnv :: "unit env" where
  "plainEnv =
     \<lparr>fuzzyMatch = None, calibrateScore = (\<lambda>score _. score), getAdaptiveWeights = (\<lambda>tenant. None),
      BRAND_KEYWORDS = None, phishingModel = None, hostname = (\<lambda>u. None)\<rparr>"

definition alarmedText :: text_result where
  "alarmedText = \<lparr>component_result.score = 50,
                  flags = [Coded ''URGENCY'' ''Urgency tactics: act now''],
                  text_result.confidence = 1 / 10\<rparr>"

definition bankMatch :: category_match where
  "bankMatch =
     \<lparr>category.label = ''Banking/Financial Scam'', icon = [0x1F3E6],
      keywords' = [''bank'', ''account'', ''credit'', ''debit'', ''transaction'', ''payment'',
                   ''transfer''],
      weights = [], category.severity = None, minMatch = None,
      matchedKeywords = [''bank''], matchScore = 1,
      category_match.confidence = Some (1 / 7),
      signals = \<lparr>signals.textScore = 50, signals.urlScore = 0, signals.senderScore = 0,
                  signals.urlFlags = [], signals.senderFlags = []\<rparr>\<rparr>"



section \<open>The edit distance table computes the edit distance\<close>

lemma lev_zero_right: "lev a b i 0 = i"
  by (cases i) simp_all

lemma wf_table_row: "wf_table m n dp \<Longrightarrow> i \<le> m \<Longrightarrow> length (dp ! i) = n + 1"
  by (simp add: wf_table_def)

lemma dp_set_wf: "wf_table m n dp \<Longrightarrow> wf_table m n (dp_set dp i j v)"
proof -
  assume wf: "wf_table m n dp"
  show ?thesis
  proof (cases "i < length dp")
    case True
    then have "set (dp[i := (dp ! i)[j := v]]) \<subseteq> insert ((dp ! i)[j := v]) (set dp)"
      by (rule_tac set_update_subset_insert)
    moreover have "length ((dp ! i)[j := v]) = n + 1" using wf True by (simp add: wf_table_def)
    ultimately show ?thesis using wf by (auto simp: wf_table_def dp_set_def)
  next
    case False
    then show ?thesis using wf by (simp add: dp_set_def list_update_beyond)
  qed
qed

lemma dp_set_nth:
  assumes "wf_table m n dp" "i \<le> m" "j \<le> n" "i' \<le> m" "j' \<le> n"
  shows "dp_set dp i j v ! i' ! j' = (if i' = i \<and> j' = j then v else dp ! i' ! j')"
  using assms wf_table_row[OF assms(1,2)]
  by (auto simp: dp_set_def wf_table_def nth_list_update)

lemma filledD:
  "filled a b i j dp \<Longrightarrow> i' \<le> length a \<Longrightarrow> j' \<le> length b
     \<Longrightarrow> i' = 0 \<or> j' = 0 \<or> i' < i \<or> (i' = i \<and> j' < j) \<Longrightarrow> dp ! i' ! j' = lev a b i' j'"
  by (simp add: filled_def)

lemma fold_upt_invariant:
  assumes "P lo s" and "\<And>k t. lo \<le> k \<Longrightarrow> k < hi \<Longrightarrow> P k t \<Longrightarrow> P (Suc k) (f k t)" and "lo \<le> hi"
  shows "P hi (fold f [lo..<hi] s)"
  using assms(2,3)
proof (induction hi)
  case 0
  then show ?case using assms(1) by simp
next
  case (Suc hi)
  show ?case
  proof (cases "lo = Suc hi")
    case True
    then show ?thesis using assms(1) by simp
  next
    case False
    then have le: "lo \<le> hi" using Suc.prems(2) by simp
    have "P hi (fold f [lo..<hi] s)"
      using Suc.prems(1) le by (intro Suc.IH) auto
    then have "P (Suc hi) (f hi (fold f [lo..<hi] s))"
      using le by (intro Suc.prems(1)) auto
    then show ?thesis using le by simp
  qed
qed

lemma init_column:
  "wf_table m n dp0 \<Longrightarrow>
   wf_table m n (fold (\<lambda>i dp. dp_set dp i 0 i) [0..<m + 1] dp0)
   \<and> (\<forall>i'<m + 1. fold (\<lambda>i dp. dp_set dp i 0 i) [0..<m + 1] dp0 ! i' ! 0 = i')"
  by (rule fold_upt_invariant[where P = "\<lambda>k dp. wf_table m n dp \<and> (\<forall>i'<k. dp ! i' ! 0 = i')"])
     (auto simp: dp_set_wf dp_set_nth less_Suc_eq)

lemma init_row:
  "wf_table m n dp1 \<Longrightarrow> \<forall>i'<m + 1. dp1 ! i' ! 0 = i' \<Longrightarrow>
   wf_table m n (fold (\<lambda>j dp. dp_set dp 0 j j) [0..<n + 1] dp1)
   \<and> (\<forall>i'<m + 1. fold (\<lambda>j dp. dp_set dp 0 j j) [0..<n + 1] dp1 ! i' ! 0 = i')
   \<and> (\<forall>j'<n + 1. fold (\<lambda>j dp. dp_set dp 0 j j) [0..<n + 1] dp1 ! 0 ! j' = j')"
  by (rule fold_upt_invariant[where P = "\<lambda>k dp. wf_table m n dp \<and> (\<forall>i'<m + 1. dp ! i' ! 0 = i')
                                             \<and> (\<forall>j'<k. dp ! 0 ! j' = j')"])
     (auto simp: dp_set_wf dp_set_nth less_Suc_eq)

lemma lev_cell_filled:
  assumes "filled a b i j dp" "1 \<le> i" "i \<le> length a" "1 \<le> j" "j \<le> length b"
  shows "filled a b i (Suc j) (lev_cell a b i j dp)"
proof -
  obtain i0 j0 where ij: "i = Suc i0" "j = Suc j0"
    using assms(2,4) by (cases i; cases j) auto
  have wf: "wf_table (length a) (length b) dp" using assms(1) by (simp add: filled_def)
  have known: "dp ! i' ! j' = lev a b i' j'"
    if "i' \<le> length a" "j' \<le> length b" "i' = 0 \<or> j' = 0 \<or> i' < i \<or> (i' = i \<and> j' < j)" for i' j'
    using assms(1) that by (simp add: filled_def)
  have up: "dp ! i0 ! j = lev a b i0 j" using assms(3,5) ij by (intro known) auto
  have left: "dp ! i ! j0 = lev a b i j0" using assms(3,5) ij by (intro known) auto
  have diag: "dp ! i0 ! j0 = lev a b i0 j0" using assms(3,5) ij by (intro known) auto
  have cell: "lev_cell a b i j dp = dp_set dp i j (lev a b i j)"
    using up left diag by (simp add: lev_cell_def Let_def ij)
  show ?thesis
    unfolding filled_def cell
    using wf assms(3,5) known
    by (auto simp: dp_set_wf dp_set_nth less_Suc_eq)
qed

lemma lev_row_filled:
  assumes "filled a b i 1 dp" "1 \<le> i" "i \<le> length a"
  shows "filled a b (Suc i) 1 (fold (lev_cell a b i) [1..<length b + 1] dp)"
proof -
  have "filled a b i (length b + 1) (fold (lev_cell a b i) [1..<length b + 1] dp)"
    using assms
    by (intro fold_upt_invariant[where P = "\<lambda>j dp. filled a b i j dp"]) (auto intro: lev_cell_filled)
  then have wf: "wf_table (length a) (length b) (fold (lev_cell a b i) [1..<length b + 1] dp)"
    and known: "\<And>i' j'. i' \<le> length a \<Longrightarrow> j' \<le> length b
         \<Longrightarrow> i' = 0 \<or> j' = 0 \<or> i' < i \<or> (i' = i \<and> j' < length b + 1)
         \<Longrightarrow> fold (lev_cell a b i) [1..<length b + 1] dp ! i' ! j' = lev a b i' j'"
    by (simp_all add: filled_def)
  show ?thesis
    unfolding filled_def
  proof (intro conjI allI impI)
    show "wf_table (length a) (length b) (fold (lev_cell a b i) [1..<length b + 1] dp)" by (rule wf)
  next
    fix i' j'
    assume h: "i' \<le> length a \<and> j' \<le> length b \<and> (i' = 0 \<or> j' = 0 \<or> i' < Suc i \<or> i' = Suc i \<and> j' < 1)"
    then have "i' = 0 \<or> j' = 0 \<or> i' < i \<or> (i' = i \<and> j' < length b + 1)" by auto
    with h show "fold (lev_cell a b i) [1..<length b + 1] dp ! i' ! j' = lev a b i' j'"
      by (intro known) auto
  qed
qed

lemma lev_table_filled: "filled a b (length a + 1) 1 (lev_table a b)"
proof -
  define m where "m = length a"
  define n where "n = length b"
  define dp0 where "dp0 = replicate (m + 1) (replicate (n + 1) (0::nat))"
  define dp1 where "dp1 = fold (\<lambda>i dp. dp_set dp i 0 i) [0..<m + 1] dp0"
  define dp2 where "dp2 = fold (\<lambda>j dp. dp_set dp 0 j j) [0..<n + 1] dp1"
  have wf0: "wf_table m n dp0" by (simp add: wf_table_def dp0_def)
  have c: "wf_table m n dp1 \<and> (\<forall>i'<m + 1. dp1 ! i' ! 0 = i')"
    unfolding dp1_def by (rule init_column[OF wf0])
  have r: "wf_table m n dp2 \<and> (\<forall>i'<m + 1. dp2 ! i' ! 0 = i') \<and> (\<forall>j'<n + 1. dp2 ! 0 ! j' = j')"
    unfolding dp2_def by (rule init_row[OF c[THEN conjunct1] c[THEN conjunct2]])
  have start: "filled a b 1 1 dp2"
    unfolding filled_def
  proof (intro conjI allI impI)
    show "wf_table (length a) (length b) dp2" using r by (simp add: m_def n_def)
  next
    fix i' j'
    assume h: "i' \<le> length a \<and> j' \<le> length b \<and> (i' = 0 \<or> j' = 0 \<or> i' < 1 \<or> i' = 1 \<and> j' < 1)"
    then consider "i' = 0" | "j' = 0" by auto
    then show "dp2 ! i' ! j' = lev a b i' j'"
    proof cases
      case 1
      then show ?thesis using r h by (simp add: m_def n_def)
    next
      case 2
      then show ?thesis using r h by (simp add: m_def n_def lev_zero_right)
    qed
  qed
  have "filled a b (length a + 1) 1
          (fold (\<lambda>i dp. fold (lev_cell a b i) [1..<length b + 1] dp) [1..<length a + 1] dp2)"
  proof (rule fold_upt_invariant[where P = "\<lambda>i dp. filled a b i 1 dp"])
    show "filled a b 1 1 dp2" by (rule start)
    show "filled a b (Suc k) 1 (fold (lev_cell a b k) [1..<length b + 1] t)"
      if "1 \<le> k" "k < length a + 1" "filled a b k 1 t" for k t
      using that by (intro lev_row_filled) simp_all
    show "1 \<le> length a + 1" by simp
  qed
  then show ?thesis
    by (simp add: lev_table_def Let_def dp2_def dp1_def dp0_def m_def n_def)
qed

lemma levenshteinDistance_lev: "levenshteinDistance a b = lev a b (length a) (length b)"
  using lev_table_filled[of a b] by (simp add: levenshteinDistance_def filled_def)

lemma lev_zero_iff:
  "i \<le> length a \<Longrightarrow> j \<le> length b \<Longrightarrow> lev a b i j = 0 \<longleftrightarrow> i = j \<and> take i a = take j b"
proof (induction a b i j rule: lev.induct)
  case (1 a b j)
  then show ?case by auto
next
  case (2 a b i)
  then show ?case by auto
next
  case (3 a b i j)
  then have ia: "i < length a" and jb: "j < length b" by auto
  have "lev a b (Suc i) (Suc j) = 0 \<longleftrightarrow> lev a b i j = 0 \<and> a ! i = b ! j"
    by (auto simp: min_def)
  also have "\<dots> \<longleftrightarrow> i = j \<and> take i a = take j b \<and> a ! i = b ! j"
    using "3.IH"(3) ia jb by auto
  also have "\<dots> \<longleftrightarrow> Suc i = Suc j \<and> take (Suc i) a = take (Suc j) b"
    using ia jb by (auto simp: take_Suc_conv_app_nth)
  finally show ?case .
qed

lemma levenshteinDistance_zero_iff: "levenshteinDistance a b = 0 \<longleftrightarrow> a = b"
proof -
  have "levenshteinDistance a b = 0 \<longleftrightarrow> length a = length b \<and> take (length a) a = take (length b) b"
    unfolding levenshteinDistance_lev by (rule lev_zero_iff) simp_all
  also have "\<dots> \<longleftrightarrow> a = b" by auto
  finally show ?thesis .
qed

section \<open>Properties of the link analysis\<close>

lemma str_split_nonempty: "str_split sep s \<noteq> []"
  by (induction s) (auto split: list.splits)

lemma flags_addFlag_subset: "set (flags (addFlag c pts f r)) \<subseteq> insert f (set (flags r))"
  by (auto simp: addFlag_def)

lemma trusted_nonempty: "t \<in> set TRUSTED_DOMAINS \<Longrightarrow> t \<noteq> []"
  by (auto simp: TRUSTED_DOMAINS_def)

lemma isTrustedDomainI:
  "t \<in> set TRUSTED_DOMAINS \<Longrightarrow> d = t \<or> endsWith d (''.'' @ t) \<Longrightarrow> isTrustedDomain d"
  unfolding isTrustedDomain_def list_ex_iff by blast

lemma invalid_flag_iff:
  "Msg ''Invalid or malformed URL'' \<in> set (flags (analyzeURL h a)) \<longleftrightarrow>
     (\<exists>v. a = Some v \<and> v \<noteq> [] \<and> (getDomain h v = None \<or> getDomain h v = Some []))"
proof (cases a)
  case None
  then show ?thesis by (simp add: analyzeURL_def)
next
  case (Some v)
  show ?thesis
  proof (cases "v = [] \<or> getDomain h v = None \<or> getDomain h v = Some []")
    case True
    then show ?thesis using Some by (auto simp: analyzeURL_def)
  next
    case False
    then obtain d where d: "getDomain h v = Some d" "d \<noteq> []" "v \<noteq> []" by auto
    show ?thesis
    proof (cases "isTrustedDomain d")
      case True
      then show ?thesis using Some d by (simp add: analyzeURL_def)
    next
      case untrusted: False
      have "Msg ''Invalid or malformed URL'' \<notin> set (flags (analyzeURL h a))"
        using Some d untrusted
        apply (simp add: analyzeURL_def Let_def)
        apply (rule notI)
        apply (drule subsetD[OF flags_addFlag_subset], simp)+
        done
      then show ?thesis using Some d by simp
    qed
  qed
qed

text \<open>
  C2. A URL that is not empty, whose host name the parser extracts and whose (lower-cased)
  host name is a trusted domain or ends with a dot followed by a trusted domain, gets the
  score 0 and the single flag "Verified trusted domain", whatever else the URL contains:
  no other check of \<open>analyzeURL\<close> is reached.
\<close>

theorem analyzeURL_trusted:
  assumes "v \<noteq> []"
    and "getDomain h v = Some d"
    and "t \<in> set TRUSTED_DOMAINS"
    and "d = t \<or> endsWith d (''.'' @ t)"
  shows "analyzeURL h (Some v)
           = \<lparr>component_result.score = 0, flags = [Msg ''Verified trusted domain'']\<rparr>"
proof -
  have "d \<noteq> []"
    using assms(4) trusted_nonempty[OF assms(3)] by (auto simp: endsWith_def)
  moreover have "isTrustedDomain d"
    using assms(3,4) by (rule isTrustedDomainI)
  ultimately show ?thesis
    using assms(1,2) by (simp add: analyzeURL_def)
qed

text \<open>
  The theorem at a URL under \<open>mail.google.com\<close> that is long enough to matter to no
  check but carries a login path, an IP-literal pattern, four encoded characters and
  an \<open>@\<close>; the parser returns the host name in capitals.
\<close>

theorem analyzeURL_trusted_witness:
  "analyzeURL
     (\<lambda>u. if u = ''https://mail.google.com/login?r=http://10.0.0.1/%41%42%43%44@x''
           then Some ''MAIL.Google.com'' else None)
     (Some ''https://mail.google.com/login?r=http://10.0.0.1/%41%42%43%44@x'')
   = \<lparr>component_result.score = 0, flags = [Msg ''Verified trusted domain'']\<rparr>"
proof -
  let ?u = "''https://mail.google.com/login?r=http://10.0.0.1/%41%42%43%44@x''"
  let ?h = "\<lambda>u. if u = ?u then Some ''MAIL.Google.com'' else None"
  have 1: "?u \<noteq> []" by simp
  have 2: "getDomain ?h ?u = Some ''mail.google.com''" by code_simp
  have 3: "''google.com'' \<in> set TRUSTED_DOMAINS" by (simp add: TRUSTED_DOMAINS_def)
  have 4: "''mail.google.com'' = ''google.com'' \<or> endsWith ''mail.google.com'' (''.'' @ ''google.com'')"
    by (simp add: endsWith_def)
  show ?thesis by (rule analyzeURL_trusted[OF 1 2 3 4])
qed

text \<open>
  The loop of \<open>checkTyposquatting\<close> flags a base label exactly when some entry of the map
  has a fake variant inside the label, or has its first three characters inside the label
  and is at distance 1 or 2 from it.
\<close>

lemma typosquat_loop_iff:
  "isTyposquat (typosquat_loop base tbl) \<longleftrightarrow>
     (\<exists>entry\<in>set tbl.
        (\<exists>f\<in>set (snd entry). str_includes base f)
        \<or> (str_includes base (take 3 (fst entry))
            \<and> 0 < levenshteinDistance base (fst entry)
            \<and> levenshteinDistance base (fst entry) \<le> 2))"
  by (induction base tbl rule: typosquat_loop.induct) (auto simp: list_ex_iff)

text \<open>
  For a URL whose host name is extracted and not trusted, the typosquat flag is raised
  exactly when \<open>checkTyposquatting\<close> reports a typosquat, and the score is the sum of the
  points of the checks that fire, capped at 100; the typosquat check contributes 35.
\<close>

lemma mem_flags_addFlag:
  "x \<in> set (flags (addFlag c pts f r)) \<longleftrightarrow> x \<in> set (flags r) \<or> (c \<and> x = f)"
  by (auto simp: addFlag_def)

lemma typosquat_flag_iff:
  assumes "v \<noteq> []" and "getDomain h v = Some d" and "d \<noteq> []" and "\<not> isTrustedDomain d"
  shows "(\<exists>b. Msg (''Possible typosquatting: looks like '' @ dquote @ b @ dquote)
                \<in> set (flags (analyzeURL h (Some v))))
         \<longleftrightarrow> isTyposquat (checkTyposquatting d)"
  using assms
  by (simp add: analyzeURL_def Let_def mem_flags_addFlag)

lemma score_addFlag: "component_result.score (addFlag c pts f r) = component_result.score r + (if c then pts else 0)"
  by (simp add: addFlag_def)

lemma typosquat_penalty:
  assumes "v \<noteq> []" and "getDomain h v = Some d" and "d \<noteq> []" and "\<not> isTrustedDomain d"
  shows "component_result.score (analyzeURL h (Some v)) =
     min 100
       ((if re_test IP_ADDRESS v then 40 else 0)
        + (if ''.'' @ last (str_split CHR ''.'' d) \<in> set SUSPICIOUS_TLDS then 25 else 0)
        + (if 3 \<le> int (length (str_split CHR ''.'' d)) - 2 then 20 else 0)
        + (if isTyposquat (checkTyposquatting d) then 35 else 0)
        + (if isURLShortener d then 15 else 0)
        + (if re_test SUSPICIOUS_PATHS v then 15 else 0)
        + (if re_test AT_SYMBOL v then 30 else 0)
        + (if 150 < length v then 10 else 0)
        + (if 3 < encodedCount v then 15 else 0))"
  using assms
  by (simp add: analyzeURL_def Let_def score_addFlag min.commute)

text \<open>
  C3. The map lists \<open>netflix\<close> among the fake variants of \<open>netflix\<close> (and \<open>microsoft\<close>
  among those of \<open>microsoft\<close>), so the exact brand is flagged: \<open>netflix.com\<close> is not on the
  trusted list, its base label is at distance 0 from the brand, and \<open>analyzeURL\<close> adds
  the 35 points of the typosquat check.
\<close>

theorem exact_brand_flagged:
  "domainBaseOf ''netflix.com'' = ''netflix''
   \<and> levenshteinDistance (domainBaseOf ''netflix.com'') ''netflix'' = 0
   \<and> \<not> isTrustedDomain ''netflix.com''
   \<and> checkTyposquatting ''netflix.com'' = \<lparr>isTyposquat = True, intendedDomain = Some ''netflix''\<rparr>
   \<and> analyzeURL (\<lambda>u. if u = ''https://netflix.com/'' then Some ''netflix.com'' else None)
        (Some ''https://netflix.com/'')
       = \<lparr>component_result.score = 35,
          flags = [Msg (''Possible typosquatting: looks like '' @ dquote @ ''netflix'' @ dquote)]\<rparr>"
  by code_simp

text \<open>
  C10. For a missing URL and for the empty string \<open>analyzeURL\<close> returns the score 0 and
  no flag. The result of the invalid-URL penalty (score 50, the flag "Invalid or malformed
  URL") is returned exactly for a string that is not empty and whose host name extraction
  fails, that is \<open>getDomain\<close> returns nothing or the empty host name.
\<close>

theorem analyzeURL_missing_or_empty:
  "analyzeURL h None = \<lparr>component_result.score = 0, flags = []\<rparr>
   \<and> analyzeURL h (Some []) = \<lparr>component_result.score = 0, flags = []\<rparr>
   \<and> (analyzeURL h a = \<lparr>component_result.score = 50, flags = [Msg ''Invalid or malformed URL'']\<rparr>
        \<longleftrightarrow> (\<exists>v. a = Some v \<and> v \<noteq> [] \<and> (getDomain h v = None \<or> getDomain h v = Some [])))"
proof (intro conjI)
  show "analyzeURL h None = \<lparr>component_result.score = 0, flags = []\<rparr>"
    by (simp add: analyzeURL_def)
  show "analyzeURL h (Some []) = \<lparr>component_result.score = 0, flags = []\<rparr>"
    by (simp add: analyzeURL_def)
  show "analyzeURL h a = \<lparr>component_result.score = 50, flags = [Msg ''Invalid or malformed URL'']\<rparr>
        \<longleftrightarrow> (\<exists>v. a = Some v \<and> v \<noteq> [] \<and> (getDomain h v = None \<or> getDomain h v = Some []))"
    (is "?L \<longleftrightarrow> ?R")
  proof
    assume ?L
    then have "Msg ''Invalid or malformed URL'' \<in> set (flags (analyzeURL h a))" by simp
    then show ?R by (simp only: invalid_flag_iff)
  next
    assume ?R
    then show ?L by (auto simp: analyzeURL_def)
  qed
qed













section \<open>Properties of the text analysis\<close>

lemma length_flags_addFlag:
  "length (flags r) + Suc k \<le> n \<Longrightarrow> length (flags (addFlag c pts f r)) + k \<le> n"
  by (simp add: addFlag_def)

lemma nlpPhishingScore_zero: "nlpPhishingScore e text = 0"
  by (simp add: nlpPhishingScore_def split: option.splits)

lemma addFlag_nlp: "addFlag ((0::rat) > 6 / 10) pts f r = r"
  by (simp add: addFlag_def)

lemma flags_update_confidence: "flags (r\<lparr>text_result.confidence := x\<rparr>) = flags r"
  by simp

lemma flags_update_score: "flags (r\<lparr>component_result.score := x\<rparr>) = flags r"
  by simp

lemma analyzeText_flags_le: "length (flags (analyzeText e b s d)) + 0 \<le> 10"
  unfolding analyzeText_def Let_def nlpPhishingScore_zero
  apply (simp only: addFlag_nlp)
  apply (split if_split)
  apply (intro conjI impI)
  subgoal by simp
  subgoal
    apply (simp only: flags_update_confidence flags_update_score)
    apply (rule length_flags_addFlag)+
    apply simp
    done
  done

lemma analyzeText_confidence:
  "text_result.confidence (analyzeText e b s d) = of_nat (length (flags (analyzeText e b s d))) / 10"
  unfolding analyzeText_def Let_def by simp



lemma codesWithin_start: "codesWithin \<lparr>component_result.score = 0, flags = [], text_result.confidence = 0\<rparr> {}"
  by (simp add: codesWithin_def)

lemma codesWithin_addFlag:
  "codesWithin r S \<Longrightarrow> k \<notin> S \<Longrightarrow> codesWithin (addFlag c pts (Coded k msg) r) (insert k S)"
  by (auto simp: codesWithin_def addFlag_def flagCode_def)

lemma codesWithin_distinct: "codesWithin r S \<Longrightarrow> distinct (map flagCode (flags r))"
  by (simp add: codesWithin_def)

lemma analyzeText_codes_distinct: "distinct (map flagCode (flags (analyzeText e b s d)))"
proof (cases "trim (toLowerCase (anonymizeText s @ '' '' @ anonymizeText b)) = []")
  case True
  then show ?thesis by (simp add: analyzeText_def)
next
  case False
  show ?thesis
    unfolding analyzeText_def Let_def
    apply (simp only: False if_False flags_update_confidence flags_update_score)
    apply (rule codesWithin_distinct)
    apply (rule codesWithin_addFlag)+
               apply (rule codesWithin_start)
              apply simp_all
    done
qed

text \<open>
  C5. The confidence that \<open>analyzeText\<close> returns is the number of flags it raised
  divided by 10, and lies between 0 and 1. The flags carry pairwise different codes: each
  is the flag of another check, so their number is the number of checks that fired.
\<close>

theorem analyzeText_confidence_ratio:
  "text_result.confidence (analyzeText e b s d) = of_nat (length (flags (analyzeText e b s d))) / 10
   \<and> distinct (map flagCode (flags (analyzeText e b s d)))
   \<and> 0 \<le> text_result.confidence (analyzeText e b s d)
   \<and> text_result.confidence (analyzeText e b s d) \<le> 1"
proof -
  have "(of_nat (length (flags (analyzeText e b s d))) :: rat) \<le> of_nat 10"
    using analyzeText_flags_le[of e b s d] by simp
  then show ?thesis by (simp add: analyzeText_confidence analyzeText_codes_distinct)
qed

text \<open>
  \<open>analyzeSender\<close> calls \<open>checkSenderMismatch\<close> only after it has found the domain, and
  then the call does not throw.
\<close>

lemma checkSenderMismatch_defined:
  "at_index (str_split CHR ''@'' email) 1 = Some d \<Longrightarrow> \<exists>m. checkSenderMismatch email name = Inr m"
  using str_split_nonempty[of "CHR ''.''" d]
  by (cases "str_split CHR ''.'' d") (simp_all add: checkSenderMismatch_def Let_def)



section \<open>Properties of the aggregation\<close>














text \<open>
  The model reaches the result through the stub \<open>nlpPhishingScore\<close> only, which ignores
  it; the clock reaches \<open>scanId\<close>, \<open>processingTime\<close> and \<open>timestamp\<close> only.
\<close>

lemma matchKeyword_model: "matchKeyword (e\<lparr>phishingModel := p\<rparr>) = matchKeyword e"
  by (intro ext) (simp add: matchKeyword_def)

lemma findKeywordMatches_model: "findKeywordMatches (e\<lparr>phishingModel := p\<rparr>) = findKeywordMatches e"
  by (intro ext) (simp add: findKeywordMatches_def matchKeyword_model)

lemma brand_model: "BRAND_KEYWORDS (e\<lparr>phishingModel := p\<rparr>) = BRAND_KEYWORDS e"
  by simp

lemma hostname_model: "hostname (e\<lparr>phishingModel := p\<rparr>) = hostname e"
  by simp

lemma analyzeText_model: "analyzeText (e\<lparr>phishingModel := p\<rparr>) = analyzeText e"
  unfolding analyzeText_def[abs_def] nlpPhishingScore_zero findKeywordMatches_model brand_model
  by (rule refl)

lemma detectCategory_model: "detectCategory (e\<lparr>phishingModel := p\<rparr>) = detectCategory e"
  unfolding detectCategory_def[abs_def] categoryStep_def[abs_def] categoryScore_def[abs_def] matchKeyword_model
  by (rule refl)

lemma finalScore_model: "finalScore (e\<lparr>phishingModel := p\<rparr>) = finalScore e"
  by (intro ext) (simp add: finalScore_def)

lemma analyze_model:
  "analyze (e\<lparr>phishingModel := p\<rparr>) = analyze e"
  unfolding analyze_def[abs_def] analyzeText_model detectCategory_model finalScore_model hostname_model
  by (rule refl)

lemma analyze_clock:
  "analyze e c1 m = (analyze e c2 m)\<lparr>scanId := scanId (analyze e c1 m),
       processingTime := processingTime (analyze e c1 m), timestamp := timestamp (analyze e c1 m)\<rparr>"
  by (simp add: analyze_def Let_def)

text \<open>
  C9. Two calls of \<open>analyze\<close> on the same input, with the same helpers and tables,
  whatever the clock and the random generator return and whether or not a model is loaded
  (\<open>p\<close> and \<open>q\<close>), return results that differ at most in \<open>scanId\<close>, \<open>processingTime\<close> and
  \<open>timestamp\<close>: scores, flags, category and explanation are the same.
\<close>

theorem analyze_deterministic:
  "analyze (e\<lparr>phishingModel := p\<rparr>) c1 m
     = (analyze (e\<lparr>phishingModel := q\<rparr>) c2 m)
         \<lparr>scanId := scanId (analyze (e\<lparr>phishingModel := p\<rparr>) c1 m),
          processingTime := processingTime (analyze (e\<lparr>phishingModel := p\<rparr>) c1 m),
          timestamp := timestamp (analyze (e\<lparr>phishingModel := p\<rparr>) c1 m)\<rparr>"
  unfolding analyze_model by (rule analyze_clock)

section \<open>Properties of the category classifier\<close>

lemma fold_weighted:
  "fold (\<lambda>kw sum. if P kw then sum + w kw else sum) ks (acc::int)
     = acc + sum_list (map w (filter P ks))"
  by (induction ks arbitrary: acc) simp_all

lemma categoryScore_sum:
  "categoryScore e lt cat = sum_list (map (weightOf cat) (filter (matchKeyword e lt) (keywords' cat)))"
  by (simp add: categoryScore_def fold_weighted)

lemma categoryStep_bestEntry:
  "categoryStep e lt entry (best, bs) =
     (if categoryScore e lt (snd entry) > bs
         \<or> (categoryScore e lt (snd entry) = bs
             \<and> orNumber (category.severity (snd entry)) 0
                 > orNumber (case best of None \<Rightarrow> None | Some b \<Rightarrow> category.severity b) 0)
      then (Some (bestEntry e lt (snd entry)), categoryScore e lt (snd entry))
      else (best, bs))"
  by (simp add: categoryStep_def Let_def bestEntry_def)

lemma loopInv_fold: "loopInv e lt cats (fold (categoryStep e lt) cats (None, 0))"
proof (induction cats rule: rev_induct)
  case Nil
  then show ?case by (simp add: loopInv_def)
next
  case (snoc entry cats)
  obtain best bs where st: "fold (categoryStep e lt) cats (None, 0) = (best, bs)"
    by (cases "fold (categoryStep e lt) cats (None, 0)")
  from snoc st have inv: "loopInv e lt cats (best, bs)" by simp
  show ?case
    using inv
    by (auto simp: st categoryStep_bestEntry loopInv_def split: option.splits)
qed

lemma bestEntry_fields:
  "matchScore (bestEntry e lt cat) = categoryScore e lt cat"
  "matchedKeywords (bestEntry e lt cat) = filter (matchKeyword e lt) (keywords' cat)"
  "weights (bestEntry e lt cat) = weights cat"
  "minMatch (bestEntry e lt cat) = minMatch cat"
  "keywords' (bestEntry e lt cat) = keywords' cat"
  by (simp_all add: bestEntry_def category.defs)

lemma weightOf_pos:
  assumes "\<forall>kw w. map_of (weights cat) kw = Some w \<longrightarrow> 0 \<le> w"
  shows "1 \<le> weightOf cat kw"
  using assms by (auto simp: weightOf_def orNumber_def split: option.splits) (metis le_less not_less zless_imp_add1_zle add.left_neutral)

lemma length_le_sum:
  "(\<forall>x\<in>set xs. (1::int) \<le> f x) \<Longrightarrow> int (length xs) \<le> sum_list (map f xs)"
  by (induction xs) auto

lemma detectCategory_Some:
  assumes "detectCategory e cats text tr ur sr = Some m"
  obtains entry where "entry \<in> set cats"
    and "matchScore m = categoryScore e (toLowerCase text) (snd entry)"
    and "matchedKeywords m = filter (matchKeyword e (toLowerCase text)) (keywords' (snd entry))"
    and "weights m = weights (snd entry)" and "minMatch m = minMatch (snd entry)"
    and "0 \<le> matchScore m"
    and "\<forall>x\<in>set cats. categoryScore e (toLowerCase text) (snd x) \<le> matchScore m"
    and "matchScore m \<ge> (if flags ur \<noteq> [] \<or> flags sr \<noteq> [] then orNumber (minMatch m) 2 - 1 else orNumber (minMatch m) 2)
         \<or> (matchScore m = 1 \<and> component_result.score tr \<ge> 50)"
proof -
  let ?lt = "toLowerCase text"
  obtain best bs where st: "fold (categoryStep e ?lt) cats (None, 0) = (best, bs)"
    by (cases "fold (categoryStep e ?lt) cats (None, 0)")
  have inv: "loopInv e ?lt cats (best, bs)" using loopInv_fold[of e ?lt cats] st by simp
  from assms st obtain b where b: "best = Some b"
    by (auto simp: detectCategory_def Let_def split: if_splits option.splits)
  from inv b obtain entry where en: "entry \<in> set cats" "b = bestEntry e ?lt (snd entry)"
      "bs = categoryScore e ?lt (snd entry)"
    by (auto simp: loopInv_def)
  from assms st b have cond: "bs \<ge> (if flags ur \<noteq> [] \<or> flags sr \<noteq> [] then orNumber (minMatch b) 2 - 1 else orNumber (minMatch b) 2)
         \<or> (bs = 1 \<and> component_result.score tr \<ge> 50)"
    by (auto simp: detectCategory_def Let_def split: if_splits)
  from assms st b have m: "matchScore m = matchScore b" "matchedKeywords m = matchedKeywords b"
      "weights m = weights b" "minMatch m = minMatch b"
    by (auto simp: detectCategory_def Let_def best_category.defs split: if_splits)
  show ?thesis
  proof (rule that[of entry])
    show "entry \<in> set cats" by (rule en(1))
    show "matchScore m = categoryScore e ?lt (snd entry)" using m en by (simp add: bestEntry_fields)
    show "matchedKeywords m = filter (matchKeyword e ?lt) (keywords' (snd entry))"
      using m en by (simp add: bestEntry_fields)
    show "weights m = weights (snd entry)" using m en by (simp add: bestEntry_fields)
    show "minMatch m = minMatch (snd entry)" using m en by (simp add: bestEntry_fields)
    show "0 \<le> matchScore m" using m en inv by (simp add: bestEntry_fields loopInv_def)
    show "\<forall>x\<in>set cats. categoryScore e ?lt (snd x) \<le> matchScore m"
      using m en inv by (simp add: bestEntry_fields loopInv_def)
    show "matchScore m \<ge> (if flags ur \<noteq> [] \<or> flags sr \<noteq> [] then orNumber (minMatch m) 2 - 1 else orNumber (minMatch m) 2)
         \<or> (matchScore m = 1 \<and> component_result.score tr \<ge> 50)"
      using cond m en by (auto simp: bestEntry_fields split: if_splits)
  qed
qed

text \<open>
  C4. When the classifier returns a category and no weight of the table is negative (the
  table of the repository has no weights), the match score of the category is the sum of
  the weights of its matched keywords, no entry of the table scores higher, and either the
  match score reaches the effective threshold or exactly one keyword matched and the text
  score is at least 50. When the classifier returns no category for the message of a scan,
  the category of the scan is "General".
\<close>

theorem detectCategory_threshold:
  "(detectCategory e cats text tr ur sr = Some m
      \<and> (\<forall>entry\<in>set cats. \<forall>kw w. map_of (weights (snd entry)) kw = Some w \<longrightarrow> 0 \<le> w)
    \<longrightarrow> matchScore m = sum_list (map (weightOf m) (matchedKeywords m))
        \<and> (\<forall>entry\<in>set cats. categoryScore e (toLowerCase text) (snd entry) \<le> matchScore m)
        \<and> (matchScore m \<ge> effectiveThreshold m ur sr
            \<or> (length (matchedKeywords m) = 1 \<and> component_result.score tr \<ge> 50)))
   \<and> (detectCategory e SCAM_CATEGORIES (body d)
          (analyzeText e (body d) (orEmpty (subject d)) (senderDomainOf (sender d)))
          (analyzeAllURLs (hostname e) (urls d))
          (analyzeSender (sender d) (displayName d)) = None
        \<longrightarrow> scan_result.category (analyze e c d) = ''General'')"
proof (intro conjI impI)
  assume h: "detectCategory e cats text tr ur sr = Some m
      \<and> (\<forall>entry\<in>set cats. \<forall>kw w. map_of (weights (snd entry)) kw = Some w \<longrightarrow> 0 \<le> w)"
  then have found: "detectCategory e cats text tr ur sr = Some m"
    and nonneg: "\<forall>entry\<in>set cats. \<forall>kw w. map_of (weights (snd entry)) kw = Some w \<longrightarrow> 0 \<le> w"
    by simp_all
  from found obtain entry where en: "entry \<in> set cats"
    and sc: "matchScore m = categoryScore e (toLowerCase text) (snd entry)"
    and mk: "matchedKeywords m = filter (matchKeyword e (toLowerCase text)) (keywords' (snd entry))"
    and wt: "weights m = weights (snd entry)"
    and pos: "0 \<le> matchScore m"
    and best: "\<forall>x\<in>set cats. categoryScore e (toLowerCase text) (snd x) \<le> matchScore m"
    and cond: "matchScore m \<ge> (if flags ur \<noteq> [] \<or> flags sr \<noteq> [] then orNumber (minMatch m) 2 - 1 else orNumber (minMatch m) 2)
         \<or> (matchScore m = 1 \<and> component_result.score tr \<ge> 50)"
    by (rule detectCategory_Some)
  have wof: "weightOf m = weightOf (snd entry)" by (rule ext) (simp add: weightOf_def wt)
  show sum: "matchScore m = sum_list (map (weightOf m) (matchedKeywords m))"
    by (simp add: sc mk wof categoryScore_sum)
  show "\<forall>entry\<in>set cats. categoryScore e (toLowerCase text) (snd entry) \<le> matchScore m"
    by (rule best)
  have one: "length (matchedKeywords m) = 1" if "matchScore m = 1"
  proof -
    have "\<forall>kw w. map_of (weights m) kw = Some w \<longrightarrow> 0 \<le> w" using nonneg en wt by auto
    then have "\<forall>kw\<in>set (matchedKeywords m). 1 \<le> weightOf m kw" using weightOf_pos by blast
    then have "int (length (matchedKeywords m)) \<le> 1"
      using length_le_sum[of "matchedKeywords m" "weightOf m"] sum that by simp
    moreover have "matchedKeywords m \<noteq> []" using sum that by auto
    ultimately show ?thesis by (cases "matchedKeywords m") auto
  qed
  show "matchScore m \<ge> effectiveThreshold m ur sr
         \<or> (length (matchedKeywords m) = 1 \<and> component_result.score tr \<ge> 50)"
    using cond pos one by (auto simp: effectiveThreshold_def split: if_splits)
next
  assume "detectCategory e SCAM_CATEGORIES (body d)
          (analyzeText e (body d) (orEmpty (subject d)) (senderDomainOf (sender d)))
          (analyzeAllURLs (hostname e) (urls d))
          (analyzeSender (sender d) (displayName d)) = None"
  then show "scan_result.category (analyze e c d) = ''General''"
    by (simp add: analyze_def Let_def)
qed

text \<open>The theorem on the table of the repository, for a text with one keyword and text score 50.\<close>

lemma bank_found:
  "detectCategory plainEnv SCAM_CATEGORIES ''Your BANK'' alarmedText noLinks quietSender = Some bankMatch"
  by code_simp

lemma no_keyword_no_category:
  "detectCategory plainEnv SCAM_CATEGORIES ''Hello there'' tr ur sr = None"
  by code_simp

theorem detectCategory_threshold_witness:
  "detectCategory plainEnv SCAM_CATEGORIES ''Your BANK'' alarmedText noLinks quietSender = Some bankMatch
   \<and> matchScore bankMatch = 1
   \<and> effectiveThreshold bankMatch noLinks quietSender = 2
   \<and> length (matchedKeywords bankMatch) = 1
   \<and> component_result.score alarmedText \<ge> 50
   \<and> scan_result.category (analyze plainEnv sampleClock greeting) = ''General''"
proof -
  have nonneg: "\<forall>entry\<in>set SCAM_CATEGORIES. \<forall>kw w. map_of (weights (snd entry)) kw = Some w \<longrightarrow> 0 \<le> w"
    by (simp add: SCAM_CATEGORIES_def)
  have sc: "matchScore bankMatch = 1" by (simp add: bankMatch_def)
  have thr: "effectiveThreshold bankMatch noLinks quietSender = 2"
    by (simp add: effectiveThreshold_def bankMatch_def noLinks_def quietSender_def orNumber_def)
  have none: "detectCategory plainEnv SCAM_CATEGORIES (body greeting)
          (analyzeText plainEnv (body greeting) (orEmpty (subject greeting)) (senderDomainOf (sender greeting)))
          (analyzeAllURLs (hostname plainEnv) (urls greeting))
          (analyzeSender (sender greeting) (displayName greeting)) = None"
    by (simp add: greeting_def no_keyword_no_category)
  note inst = detectCategory_threshold[of plainEnv SCAM_CATEGORIES "''Your BANK''" alarmedText noLinks
      quietSender bankMatch greeting sampleClock]
  from inst bank_found nonneg sc thr
  have "length (matchedKeywords bankMatch) = 1 \<and> component_result.score alarmedText \<ge> 50"
    by simp
  moreover from inst none have "scan_result.category (analyze plainEnv sampleClock greeting) = ''General''"
    by blast
  ultimately show ?thesis using bank_found sc thr by simp
qed

section \<open>Properties of the explanation\<close>






























end
